theory Spec2Isabelle
  imports Complex_Main "HOL-Library.Monad_Syntax"
begin

section \<open>Riddle Maker: the table store and the eight actions\<close>

text \<open>
  The repository is two files: \<^verbatim>\<open>db/tables.ts\<close> declares the tables
  \<^verbatim>\<open>RiddleCollections\<close> and \<^verbatim>\<open>Riddles\<close>, and \<^verbatim>\<open>src/actions/index.ts\<close> defines
  eight actions over them. Each action is \<^verbatim>\<open>defineAction({ input, handler })\<close>: a zod
  schema and an asynchronous handler that issues a short sequence of statements.

  The embedding is by explicit state passing. A table is the list of its rows in insertion
  order; a statement is a function on the store that also appends itself to a statement
  log, so that "no data access" can be said. A thrown error is the left summand of the
  result. The two values a handler takes from its runtime, \<^verbatim>\<open>new Date()\<close> and
  \<^verbatim>\<open>crypto.randomUUID()\<close>, are parameters of the handler.
\<close>

subsection \<open>Rows (db/tables.ts)\<close>

type_synonym date = nat

text \<open>An optional column is an \<open>option\<close>: \<open>None\<close> is SQL NULL.\<close>

record collection =
  c_id :: string
  c_userId :: string
  c_name :: string
  c_description :: "string option"
  c_icon :: "string option"
  c_isDefault :: bool
  c_createdAt :: date
  c_updatedAt :: date

record riddle =
  r_id :: string
  r_collectionId :: "string option"
  r_userId :: string
  r_question :: string
  r_answer :: string
  r_hint :: "string option"
  r_difficulty :: "string option"
  r_category :: "string option"
  r_language :: "string option"
  r_isFavorite :: bool
  r_isPublic :: bool
  r_createdAt :: date
  r_updatedAt :: date

subsection \<open>The store and its statements\<close>

datatype table_name = RiddleCollections | Riddles

datatype statement = SELECT table_name | INSERT table_name | UPDATE table_name | DELETE table_name

record db =
  collections :: "collection list"
  riddles :: "riddle list"
  issued :: "statement list"

datatype code = UNAUTHORIZED | NOT_FOUND | FORBIDDEN

text \<open>
  \<open>ActionError\<close> is what the handlers throw themselves. \<open>ActionInputError\<close> is what
  \<^verbatim>\<open>defineAction\<close> raises when the input does not parse against the schema.
  \<open>ConstraintError\<close> is the exception of the table engine when a statement violates a
  constraint that \<^verbatim>\<open>db/tables.ts\<close> declares: the primary keys of both tables and the
  reference from \<^verbatim>\<open>Riddles.collectionId\<close> to \<^verbatim>\<open>RiddleCollections.id\<close>. \<open>MismatchError\<close>
  is the engine's \<^verbatim>\<open>SQLITE_MISMATCH\<close>, raised when the limit or the offset of a select is
  not a 64-bit integer. A statement that fails changes no row.
\<close>

datatype error = ActionError code | ActionInputError | ConstraintError | MismatchError

type_synonym 'a result = "(error + 'a) \<times> db"

definition record_statement :: "statement \<Rightarrow> db \<Rightarrow> db" where
  "record_statement q s = s\<lparr>issued := issued s @ [q]\<rparr>"

text \<open>\<^verbatim>\<open>db.select().from(RiddleCollections).where(p)\<close>\<close>

definition select_collections :: "(collection \<Rightarrow> bool) \<Rightarrow> db \<Rightarrow> collection list \<times> db" where
  "select_collections p s = (filter p (collections s), record_statement (SELECT RiddleCollections) s)"

text \<open>\<^verbatim>\<open>db.select().from(Riddles).where(p)\<close>\<close>

definition select_riddles :: "(riddle \<Rightarrow> bool) \<Rightarrow> db \<Rightarrow> riddle list \<times> db" where
  "select_riddles p s = (filter p (riddles s), record_statement (SELECT Riddles) s)"

text \<open>
  \<^verbatim>\<open>.limit(n).offset(k)\<close> on a select: the rows that match, without the first \<open>k\<close>, at
  most \<open>n\<close> of them. A negative limit in SQLite means no limit and a negative offset
  means none; the schemas of the listing actions never let either through.
\<close>

definition page_window :: "int \<Rightarrow> int \<Rightarrow> 'a list \<Rightarrow> 'a list" where
  "page_window n k rows = (let rest = drop (nat k) rows in if n < 0 then rest else take (nat n) rest)"

text \<open>
  The engine takes a limit and an offset only when they are 64-bit integers. A JavaScript
  number that is larger (an offset of \<open>2 ^ 63\<close> or more) reaches it as a floating-point
  value that has no such integer, and the select is refused.
\<close>

definition sqlite_integer :: "int \<Rightarrow> bool" where
  "sqlite_integer n = (- (2 ^ 63) \<le> n \<and> n < 2 ^ 63)"

definition select_collections_page ::
  "(collection \<Rightarrow> bool) \<Rightarrow> int \<Rightarrow> int \<Rightarrow> db \<Rightarrow> collection list result" where
  "select_collections_page p n k s =
     (if sqlite_integer n \<and> sqlite_integer k
      then (Inr (page_window n k (filter p (collections s))),
            record_statement (SELECT RiddleCollections) s)
      else (Inl MismatchError, record_statement (SELECT RiddleCollections) s))"

definition select_riddles_page ::
  "(riddle \<Rightarrow> bool) \<Rightarrow> int \<Rightarrow> int \<Rightarrow> db \<Rightarrow> riddle list result" where
  "select_riddles_page p n k s =
     (if sqlite_integer n \<and> sqlite_integer k
      then (Inr (page_window n k (filter p (riddles s))), record_statement (SELECT Riddles) s)
      else (Inl MismatchError, record_statement (SELECT Riddles) s))"

text \<open>
  \<^verbatim>\<open>db.update(RiddleCollections).set(f).where(p).returning()\<close>. No action sets the \<open>id\<close>
  of a collection, so this statement cannot violate a constraint.
\<close>

definition update_collections ::
  "(collection \<Rightarrow> collection) \<Rightarrow> (collection \<Rightarrow> bool) \<Rightarrow> db \<Rightarrow> collection list \<times> db" where
  "update_collections f p s =
     (map f (filter p (collections s)),
      record_statement (UPDATE RiddleCollections)
        (s\<lparr>collections := map (\<lambda>c. if p c then f c else c) (collections s)\<rparr>))"

text \<open>
  \<^verbatim>\<open>db.insert(RiddleCollections).values(row).returning()\<close>: the primary key must be new.
\<close>

definition insert_collection :: "collection \<Rightarrow> db \<Rightarrow> collection list result" where
  "insert_collection row s =
     (if c_id row \<in> set (map c_id (collections s))
      then (Inl ConstraintError, record_statement (INSERT RiddleCollections) s)
      else (Inr [row],
            record_statement (INSERT RiddleCollections) (s\<lparr>collections := collections s @ [row]\<rparr>)))"

text \<open>
  \<^verbatim>\<open>db.delete(RiddleCollections).where(p)\<close>: a collection that a riddle still references
  cannot be deleted (the reference declares no \<^verbatim>\<open>ON DELETE\<close> action).
\<close>

definition referenced :: "db \<Rightarrow> collection \<Rightarrow> bool" where
  "referenced s c = list_ex (\<lambda>r. r_collectionId r = Some (c_id c)) (riddles s)"

definition delete_collections :: "(collection \<Rightarrow> bool) \<Rightarrow> db \<Rightarrow> unit result" where
  "delete_collections p s =
     (if list_ex (referenced s) (filter p (collections s))
      then (Inl ConstraintError, record_statement (DELETE RiddleCollections) s)
      else (Inr (),
            record_statement (DELETE RiddleCollections)
              (s\<lparr>collections := filter (\<lambda>c. \<not> p c) (collections s)\<rparr>)))"

text \<open>
  A riddle row satisfies the reference when its \<open>collectionId\<close> is NULL or the \<open>id\<close> of a
  row of \<^verbatim>\<open>RiddleCollections\<close>.
\<close>

definition resolves :: "db \<Rightarrow> riddle \<Rightarrow> bool" where
  "resolves s r =
     (case r_collectionId r of None \<Rightarrow> True | Some c \<Rightarrow> c \<in> set (map c_id (collections s)))"

text \<open>\<^verbatim>\<open>db.insert(Riddles).values(row).returning()\<close>\<close>

definition insert_riddle :: "riddle \<Rightarrow> db \<Rightarrow> riddle list result" where
  "insert_riddle row s =
     (if r_id row \<in> set (map r_id (riddles s)) \<or> \<not> resolves s row
      then (Inl ConstraintError, record_statement (INSERT Riddles) s)
      else (Inr [row], record_statement (INSERT Riddles) (s\<lparr>riddles := riddles s @ [row]\<rparr>)))"

text \<open>
  \<^verbatim>\<open>db.update(Riddles).set(f).where(p).returning()\<close>: a row whose \<open>collectionId\<close> the
  statement changes must satisfy the reference afterwards.
\<close>

definition update_riddles ::
  "(riddle \<Rightarrow> riddle) \<Rightarrow> (riddle \<Rightarrow> bool) \<Rightarrow> db \<Rightarrow> riddle list result" where
  "update_riddles f p s =
     (if list_ex (\<lambda>r. r_collectionId (f r) \<noteq> r_collectionId r \<and> \<not> resolves s (f r))
           (filter p (riddles s))
      then (Inl ConstraintError, record_statement (UPDATE Riddles) s)
      else (Inr (map f (filter p (riddles s))),
            record_statement (UPDATE Riddles)
              (s\<lparr>riddles := map (\<lambda>r. if p r then f r else r) (riddles s)\<rparr>)))"

text \<open>\<^verbatim>\<open>db.delete(Riddles).where(p)\<close>\<close>

definition delete_riddles :: "(riddle \<Rightarrow> bool) \<Rightarrow> db \<Rightarrow> unit \<times> db" where
  "delete_riddles p s =
     ((), record_statement (DELETE Riddles) (s\<lparr>riddles := filter (\<lambda>r. \<not> p r) (riddles s)\<rparr>))"

text \<open>\<^verbatim>\<open>const [row] = rows\<close>: the first row, \<^verbatim>\<open>undefined\<close> when there is none.\<close>

definition first_row :: "'a list \<Rightarrow> 'a option" where
  "first_row rows = (case rows of [] \<Rightarrow> None | x # _ \<Rightarrow> Some x)"

subsection \<open>The request context and \<^verbatim>\<open>requireUser\<close>\<close>

record user =
  u_id :: string

record locals =
  l_user :: "user option"

record action_context =
  ctx_locals :: "locals option"

text \<open>\<^verbatim>\<open>context.locals?.user\<close>\<close>

definition locals_user :: "action_context \<Rightarrow> user option" where
  "locals_user context = (case ctx_locals context of None \<Rightarrow> None | Some locals \<Rightarrow> l_user locals)"

definition requireUser :: "action_context \<Rightarrow> error + user" where
  "requireUser context =
     (case locals_user context of
        None \<Rightarrow> Inl (ActionError UNAUTHORIZED)
      | Some user \<Rightarrow> Inr user)"

subsection \<open>Parsed inputs\<close>

text \<open>
  The value a handler receives is the output of its schema. An \<^verbatim>\<open>.optional()\<close> field is an
  \<open>option\<close> (\<open>None\<close> is \<^verbatim>\<open>undefined\<close>); the one \<^verbatim>\<open>.nullable().optional()\<close> field can also
  be \<^verbatim>\<open>null\<close>.
\<close>

datatype 'a nullable = Null | Value 'a

record createRiddleCollection_input =
  cc_name :: string
  cc_description :: "string option"
  cc_icon :: "string option"
  cc_isDefault :: "bool option"

record updateRiddleCollection_input =
  uc_id :: string
  uc_name :: "string option"
  uc_description :: "string option"
  uc_icon :: "string option"
  uc_isDefault :: "bool option"

record deleteRiddleCollection_input =
  dc_id :: string

record createRiddle_input =
  cr_question :: string
  cr_answer :: string
  cr_hint :: "string option"
  cr_difficulty :: "string option"
  cr_category :: "string option"
  cr_language :: "string option"
  cr_collectionId :: "string option"
  cr_isFavorite :: "bool option"
  cr_isPublic :: "bool option"

record updateRiddle_input =
  ur_id :: string
  ur_question :: "string option"
  ur_answer :: "string option"
  ur_hint :: "string option"
  ur_difficulty :: "string option"
  ur_category :: "string option"
  ur_language :: "string option"
  ur_collectionId :: "string nullable option"
  ur_isFavorite :: "bool option"
  ur_isPublic :: "bool option"

record deleteRiddle_input =
  dr_id :: string

record listMyCollections_input =
  lc_page :: int
  lc_pageSize :: int

record listMyRiddles_input =
  lr_collectionId :: "string option"
  lr_favoritesOnly :: "bool option"
  lr_difficulty :: "string option"
  lr_category :: "string option"
  lr_page :: int
  lr_pageSize :: int

text \<open>
  JavaScript truthiness of an optional string and of an optional boolean: \<^verbatim>\<open>undefined\<close>,
  the empty string and \<^verbatim>\<open>false\<close> are falsy. \<open>truthy_string\<close> gives the string when
  it is truthy.
\<close>

definition truthy_string :: "string option \<Rightarrow> string option" where
  "truthy_string v = (case v of None \<Rightarrow> None | Some s \<Rightarrow> (if s \<noteq> [] then Some s else None))"

definition truthy_bool :: "bool option \<Rightarrow> bool" where
  "truthy_bool v = (case v of None \<Rightarrow> False | Some b \<Rightarrow> b)"

subsection \<open>Collection handlers\<close>

text \<open>\<^verbatim>\<open>.set({ isDefault: false, updatedAt: now })\<close>\<close>

definition clear_default :: "date \<Rightarrow> collection \<Rightarrow> collection" where
  "clear_default now c = c\<lparr>c_isDefault := False, c_updatedAt := now\<rparr>"

definition createRiddleCollection_handler ::
  "createRiddleCollection_input \<Rightarrow> action_context \<Rightarrow> date \<Rightarrow> string \<Rightarrow> db \<Rightarrow> collection option result" where
  "createRiddleCollection_handler input context now uuid s =
     (case requireUser context of
        Inl e \<Rightarrow> (Inl e, s)
      | Inr user \<Rightarrow>
          (let s1 = (if truthy_bool (cc_isDefault input)
                     then snd (update_collections (clear_default now)
                                 (\<lambda>c. c_userId c = u_id user) s)
                     else s)
           in case insert_collection
                     \<lparr>c_id = uuid, c_userId = u_id user, c_name = cc_name input,
                      c_description = cc_description input, c_icon = cc_icon input,
                      c_isDefault = (case cc_isDefault input of None \<Rightarrow> False | Some b \<Rightarrow> b),
                      c_createdAt = now, c_updatedAt = now\<rparr> s1 of
                (Inl e, s2) \<Rightarrow> (Inl e, s2)
              | (Inr rows, s2) \<Rightarrow> (Inr (first_row rows), s2)))"

text \<open>
  \<^verbatim>\<open>updateData\<close> of \<^verbatim>\<open>updateRiddleCollection\<close>: \<open>updatedAt\<close> always, every other field only
  when the input defines it.
\<close>

definition collection_updateData ::
  "updateRiddleCollection_input \<Rightarrow> date \<Rightarrow> collection \<Rightarrow> collection" where
  "collection_updateData input now c =
     c\<lparr>c_updatedAt := now,
       c_name := (case uc_name input of None \<Rightarrow> c_name c | Some v \<Rightarrow> v),
       c_description := (case uc_description input of None \<Rightarrow> c_description c | Some v \<Rightarrow> Some v),
       c_icon := (case uc_icon input of None \<Rightarrow> c_icon c | Some v \<Rightarrow> Some v),
       c_isDefault := (case uc_isDefault input of None \<Rightarrow> c_isDefault c | Some v \<Rightarrow> v)\<rparr>"

definition updateRiddleCollection_handler ::
  "updateRiddleCollection_input \<Rightarrow> action_context \<Rightarrow> date \<Rightarrow> db \<Rightarrow> collection option result" where
  "updateRiddleCollection_handler input context now s =
     (case requireUser context of
        Inl e \<Rightarrow> (Inl e, s)
      | Inr user \<Rightarrow>
          (let target = (\<lambda>c. c_id c = uc_id input \<and> c_userId c = u_id user);
               (existing, s1) = select_collections target s
           in if first_row existing = None then (Inl (ActionError NOT_FOUND), s1)
              else
                let s2 = (if truthy_bool (uc_isDefault input)
                          then snd (update_collections (clear_default now)
                                      (\<lambda>c. c_userId c = u_id user) s1)
                          else s1);
                    (rows, s3) = update_collections (collection_updateData input now) target s2
                in (Inr (first_row rows), s3)))"

text \<open>\<^verbatim>\<open>.set({ collectionId: null, updatedAt: now })\<close>\<close>

definition detach :: "date \<Rightarrow> riddle \<Rightarrow> riddle" where
  "detach now r = r\<lparr>r_collectionId := None, r_updatedAt := now\<rparr>"

definition deleteRiddleCollection_handler ::
  "deleteRiddleCollection_input \<Rightarrow> action_context \<Rightarrow> date \<Rightarrow> db \<Rightarrow> unit result" where
  "deleteRiddleCollection_handler input context now s =
     (case requireUser context of
        Inl e \<Rightarrow> (Inl e, s)
      | Inr user \<Rightarrow>
          (let target = (\<lambda>c. c_id c = dc_id input \<and> c_userId c = u_id user);
               (existing, s1) = select_collections target s
           in if first_row existing = None then (Inl (ActionError NOT_FOUND), s1)
              else
                case update_riddles (detach now)
                       (\<lambda>r. r_collectionId r = Some (dc_id input) \<and> r_userId r = u_id user) s1 of
                  (Inl e, s2) \<Rightarrow> (Inl e, s2)
                | (Inr _, s2) \<Rightarrow> delete_collections target s2))"

subsection \<open>Riddle handlers\<close>

text \<open>
  The ownership check of \<^verbatim>\<open>createRiddle\<close> and \<^verbatim>\<open>updateRiddle\<close>: select the collection
  with this id and this owner; \<^verbatim>\<open>FORBIDDEN\<close> when there is none.
\<close>

definition check_collection :: "string \<Rightarrow> user \<Rightarrow> db \<Rightarrow> unit result" where
  "check_collection cid user s =
     (let (found, s1) = select_collections (\<lambda>c. c_id c = cid \<and> c_userId c = u_id user) s
      in if first_row found = None then (Inl (ActionError FORBIDDEN), s1) else (Inr (), s1))"

definition createRiddle_handler ::
  "createRiddle_input \<Rightarrow> action_context \<Rightarrow> date \<Rightarrow> string \<Rightarrow> db \<Rightarrow> riddle option result" where
  "createRiddle_handler input context now uuid s =
     (case requireUser context of
        Inl e \<Rightarrow> (Inl e, s)
      | Inr user \<Rightarrow>
          (case (case truthy_string (cr_collectionId input) of
                   Some cid \<Rightarrow> check_collection cid user s
                 | None \<Rightarrow> (Inr (), s)) of
             (Inl e, s1) \<Rightarrow> (Inl e, s1)
           | (Inr _, s1) \<Rightarrow>
               (case insert_riddle
                       \<lparr>r_id = uuid, r_collectionId = cr_collectionId input,
                        r_userId = u_id user, r_question = cr_question input,
                        r_answer = cr_answer input, r_hint = cr_hint input,
                        r_difficulty = cr_difficulty input, r_category = cr_category input,
                        r_language = cr_language input,
                        r_isFavorite = (case cr_isFavorite input of None \<Rightarrow> False | Some b \<Rightarrow> b),
                        r_isPublic = (case cr_isPublic input of None \<Rightarrow> False | Some b \<Rightarrow> b),
                        r_createdAt = now, r_updatedAt = now\<rparr> s1 of
                  (Inl e, s2) \<Rightarrow> (Inl e, s2)
                | (Inr rows, s2) \<Rightarrow> (Inr (first_row rows), s2))))"

text \<open>
  \<^verbatim>\<open>updateData\<close> of \<^verbatim>\<open>updateRiddle\<close>. A \<open>collectionId\<close> that is defined is written as it
  is: \<^verbatim>\<open>null\<close> becomes NULL.
\<close>

definition riddle_updateData :: "updateRiddle_input \<Rightarrow> date \<Rightarrow> riddle \<Rightarrow> riddle" where
  "riddle_updateData input now r =
     r\<lparr>r_updatedAt := now,
       r_question := (case ur_question input of None \<Rightarrow> r_question r | Some v \<Rightarrow> v),
       r_answer := (case ur_answer input of None \<Rightarrow> r_answer r | Some v \<Rightarrow> v),
       r_hint := (case ur_hint input of None \<Rightarrow> r_hint r | Some v \<Rightarrow> Some v),
       r_difficulty := (case ur_difficulty input of None \<Rightarrow> r_difficulty r | Some v \<Rightarrow> Some v),
       r_category := (case ur_category input of None \<Rightarrow> r_category r | Some v \<Rightarrow> Some v),
       r_language := (case ur_language input of None \<Rightarrow> r_language r | Some v \<Rightarrow> Some v),
       r_collectionId := (case ur_collectionId input of
                            None \<Rightarrow> r_collectionId r
                          | Some Null \<Rightarrow> None
                          | Some (Value v) \<Rightarrow> Some v),
       r_isFavorite := (case ur_isFavorite input of None \<Rightarrow> r_isFavorite r | Some v \<Rightarrow> v),
       r_isPublic := (case ur_isPublic input of None \<Rightarrow> r_isPublic r | Some v \<Rightarrow> v)\<rparr>"

text \<open>
  \<^verbatim>\<open>typeof input.collectionId !== "undefined" && input.collectionId\<close>: the string to check,
  when the field is defined, not \<^verbatim>\<open>null\<close> and not empty.
\<close>

definition collection_to_check :: "string nullable option \<Rightarrow> string option" where
  "collection_to_check v =
     (case v of
        None \<Rightarrow> None
      | Some Null \<Rightarrow> None
      | Some (Value cid) \<Rightarrow> truthy_string (Some cid))"

definition updateRiddle_handler ::
  "updateRiddle_input \<Rightarrow> action_context \<Rightarrow> date \<Rightarrow> db \<Rightarrow> riddle option result" where
  "updateRiddle_handler input context now s =
     (case requireUser context of
        Inl e \<Rightarrow> (Inl e, s)
      | Inr user \<Rightarrow>
          (let target = (\<lambda>r. r_id r = ur_id input \<and> r_userId r = u_id user);
               (existing, s1) = select_riddles target s
           in if first_row existing = None then (Inl (ActionError NOT_FOUND), s1)
              else
                case (case collection_to_check (ur_collectionId input) of
                        Some cid \<Rightarrow> check_collection cid user s1
                      | None \<Rightarrow> (Inr (), s1)) of
                  (Inl e, s2) \<Rightarrow> (Inl e, s2)
                | (Inr _, s2) \<Rightarrow>
                    (case update_riddles (riddle_updateData input now) target s2 of
                       (Inl e, s3) \<Rightarrow> (Inl e, s3)
                     | (Inr rows, s3) \<Rightarrow> (Inr (first_row rows), s3))))"

definition deleteRiddle_handler ::
  "deleteRiddle_input \<Rightarrow> action_context \<Rightarrow> db \<Rightarrow> unit result" where
  "deleteRiddle_handler input context s =
     (case requireUser context of
        Inl e \<Rightarrow> (Inl e, s)
      | Inr user \<Rightarrow>
          (let target = (\<lambda>r. r_id r = dr_id input \<and> r_userId r = u_id user);
               (existing, s1) = select_riddles target s
           in if first_row existing = None then (Inl (ActionError NOT_FOUND), s1)
              else let (_, s2) = delete_riddles target s1 in (Inr (), s2)))"

subsection \<open>Listing handlers\<close>

text \<open>The data of a listing: \<^verbatim>\<open>{ items, total: items.length }\<close>.\<close>

record 'a listing =
  items :: "'a list"
  total :: nat

text \<open>
  \<^verbatim>\<open>(input.page - 1) * input.pageSize\<close> is arithmetic on JavaScript numbers, which are
  doubles: each operation gives the double nearest to the exact result, ties to the even
  significand. On integers that is the identity below \<open>2 ^ 53\<close>; above, the result is the
  nearest multiple of the power of two that leaves 53 significant bits. (A result beyond
  the largest double is \<^verbatim>\<open>Infinity\<close>; here it stays a huge integer, which the engine
  refuses all the same.)
\<close>

fun bit_length :: "nat \<Rightarrow> nat" where
  "bit_length n = (if n = 0 then 0 else Suc (bit_length (n div 2)))"

definition to_double :: "int \<Rightarrow> int" where
  "to_double n =
     (let a = nat \<bar>n\<bar>
      in if a < 2 ^ 53 then n
         else
           let u = 2 ^ (bit_length a - 53);
               q = a div u;
               r = a mod u;
               q' = (if u < 2 * r \<or> (2 * r = u \<and> odd q) then q + 1 else q)
           in sgn n * int (q' * u))"

definition js_minus :: "int \<Rightarrow> int \<Rightarrow> int" where
  "js_minus a b = to_double (a - b)"

definition js_times :: "int \<Rightarrow> int \<Rightarrow> int" where
  "js_times a b = to_double (a * b)"

definition listMyCollections_handler ::
  "listMyCollections_input \<Rightarrow> action_context \<Rightarrow> db \<Rightarrow> collection listing result" where
  "listMyCollections_handler input context s =
     (case requireUser context of
        Inl e \<Rightarrow> (Inl e, s)
      | Inr user \<Rightarrow>
          (case select_collections_page (\<lambda>c. c_userId c = u_id user)
                  (lc_pageSize input)
                  (js_times (js_minus (lc_page input) 1) (lc_pageSize input)) s of
             (Inl e, s1) \<Rightarrow> (Inl e, s1)
           | (Inr rows, s1) \<Rightarrow> (Inr \<lparr>items = rows, total = length rows\<rparr>, s1)))"

text \<open>
  \<^verbatim>\<open>filters\<close> of \<^verbatim>\<open>listMyRiddles\<close>: the owner always, every other condition pushed only
  when its input field is truthy. The list is never empty, so \<^verbatim>\<open>whereClause\<close> is always
  \<^verbatim>\<open>and(...filters)\<close>. An \<^verbatim>\<open>eq\<close> on a nullable column is false on NULL.
\<close>

definition listMyRiddles_filters :: "listMyRiddles_input \<Rightarrow> user \<Rightarrow> (riddle \<Rightarrow> bool) list" where
  "listMyRiddles_filters input user =
     [\<lambda>r. r_userId r = u_id user]
     @ (if truthy_string (lr_collectionId input) \<noteq> None
        then [\<lambda>r. r_collectionId r = lr_collectionId input] else [])
     @ (if truthy_bool (lr_favoritesOnly input)
        then [\<lambda>r. r_isFavorite r = True] else [])
     @ (if truthy_string (lr_difficulty input) \<noteq> None
        then [\<lambda>r. r_difficulty r = lr_difficulty input] else [])
     @ (if truthy_string (lr_category input) \<noteq> None
        then [\<lambda>r. r_category r = lr_category input] else [])"

definition and_all :: "('a \<Rightarrow> bool) list \<Rightarrow> 'a \<Rightarrow> bool" where
  "and_all fs r = list_all (\<lambda>f. f r) fs"

definition listMyRiddles_handler ::
  "listMyRiddles_input \<Rightarrow> action_context \<Rightarrow> db \<Rightarrow> riddle listing result" where
  "listMyRiddles_handler input context s =
     (case requireUser context of
        Inl e \<Rightarrow> (Inl e, s)
      | Inr user \<Rightarrow>
          (case select_riddles_page (and_all (listMyRiddles_filters input user))
                  (lr_pageSize input)
                  (js_times (js_minus (lr_page input) 1) (lr_pageSize input)) s of
             (Inl e, s1) \<Rightarrow> (Inl e, s1)
           | (Inr rows, s1) \<Rightarrow> (Inr \<lparr>items = rows, total = length rows\<rparr>, s1)))"

subsection \<open>Schemas and \<^verbatim>\<open>defineAction\<close>\<close>

text \<open>
  What a client sends is an object of JavaScript values: a function from field names to
  values, \<open>JUndefined\<close> where the field is absent. A zod validator is a partial function
  from such a value to the parsed value; \<open>None\<close> is a validation issue. Numbers are
  rationals here, so \<^verbatim>\<open>.int()\<close> has something to reject; a \<open>JNum\<close> stands for a value that
  a double holds.
\<close>

datatype jsval = JUndefined | JNull | JBool bool | JNum rat | JStr string

type_synonym jsobject = "string \<Rightarrow> jsval"

definition z_string :: "jsval \<Rightarrow> string option" where
  "z_string v = (case v of JStr x \<Rightarrow> Some x | _ \<Rightarrow> None)"

definition z_min :: "nat \<Rightarrow> (jsval \<Rightarrow> string option) \<Rightarrow> jsval \<Rightarrow> string option" where
  "z_min n z v = (case z v of None \<Rightarrow> None | Some x \<Rightarrow> (if n \<le> length x then Some x else None))"

definition z_boolean :: "jsval \<Rightarrow> bool option" where
  "z_boolean v = (case v of JBool b \<Rightarrow> Some b | _ \<Rightarrow> None)"

definition z_enum :: "string list \<Rightarrow> jsval \<Rightarrow> string option" where
  "z_enum values v = (case v of JStr x \<Rightarrow> (if x \<in> set values then Some x else None) | _ \<Rightarrow> None)"

definition z_optional :: "(jsval \<Rightarrow> 'a option) \<Rightarrow> jsval \<Rightarrow> 'a option option" where
  "z_optional z v = (case v of JUndefined \<Rightarrow> Some None | _ \<Rightarrow> map_option Some (z v))"

definition z_nullable :: "(jsval \<Rightarrow> 'a option) \<Rightarrow> jsval \<Rightarrow> 'a nullable option" where
  "z_nullable z v = (case v of JNull \<Rightarrow> Some Null | _ \<Rightarrow> map_option Value (z v))"

text \<open>\<^verbatim>\<open>z.number().int()\<close>\<close>

definition z_number_int :: "jsval \<Rightarrow> int option" where
  "z_number_int v =
     (case v of JNum q \<Rightarrow> (if of_int \<lfloor>q\<rfloor> = q then Some \<lfloor>q\<rfloor> else None) | _ \<Rightarrow> None)"

definition z_positive :: "(jsval \<Rightarrow> int option) \<Rightarrow> jsval \<Rightarrow> int option" where
  "z_positive z v = (case z v of None \<Rightarrow> None | Some n \<Rightarrow> (if 0 < n then Some n else None))"

definition z_max :: "int \<Rightarrow> (jsval \<Rightarrow> int option) \<Rightarrow> jsval \<Rightarrow> int option" where
  "z_max m z v = (case z v of None \<Rightarrow> None | Some n \<Rightarrow> (if n \<le> m then Some n else None))"

definition z_default :: "'a \<Rightarrow> (jsval \<Rightarrow> 'a option) \<Rightarrow> jsval \<Rightarrow> 'a option" where
  "z_default d z v = (case v of JUndefined \<Rightarrow> Some d | _ \<Rightarrow> z v)"

definition z_difficulty :: "jsval \<Rightarrow> string option" where
  "z_difficulty = z_enum [''easy'', ''medium'', ''hard'']"

definition z_page :: "jsval \<Rightarrow> int option" where
  "z_page = z_default 1 (z_positive z_number_int)"

definition z_pageSize :: "jsval \<Rightarrow> int option" where
  "z_pageSize = z_default 20 (z_max 100 (z_positive z_number_int))"

definition createRiddleCollection_schema :: "jsobject \<Rightarrow> createRiddleCollection_input option" where
  "createRiddleCollection_schema raw = do {
     name \<leftarrow> z_min 1 z_string (raw ''name'');
     description \<leftarrow> z_optional z_string (raw ''description'');
     icon \<leftarrow> z_optional z_string (raw ''icon'');
     isDefault \<leftarrow> z_optional z_boolean (raw ''isDefault'');
     Some \<lparr>cc_name = name, cc_description = description, cc_icon = icon,
           cc_isDefault = isDefault\<rparr>
   }"

definition updateRiddleCollection_schema :: "jsobject \<Rightarrow> updateRiddleCollection_input option" where
  "updateRiddleCollection_schema raw = do {
     id \<leftarrow> z_min 1 z_string (raw ''id'');
     name \<leftarrow> z_optional (z_min 1 z_string) (raw ''name'');
     description \<leftarrow> z_optional z_string (raw ''description'');
     icon \<leftarrow> z_optional z_string (raw ''icon'');
     isDefault \<leftarrow> z_optional z_boolean (raw ''isDefault'');
     Some \<lparr>uc_id = id, uc_name = name, uc_description = description, uc_icon = icon,
           uc_isDefault = isDefault\<rparr>
   }"

definition deleteRiddleCollection_schema :: "jsobject \<Rightarrow> deleteRiddleCollection_input option" where
  "deleteRiddleCollection_schema raw = do {
     id \<leftarrow> z_min 1 z_string (raw ''id'');
     Some \<lparr>dc_id = id\<rparr>
   }"

definition createRiddle_schema :: "jsobject \<Rightarrow> createRiddle_input option" where
  "createRiddle_schema raw = do {
     question \<leftarrow> z_min 1 z_string (raw ''question'');
     answer \<leftarrow> z_min 1 z_string (raw ''answer'');
     hint \<leftarrow> z_optional z_string (raw ''hint'');
     difficulty \<leftarrow> z_optional z_difficulty (raw ''difficulty'');
     category \<leftarrow> z_optional z_string (raw ''category'');
     language \<leftarrow> z_optional z_string (raw ''language'');
     collectionId \<leftarrow> z_optional z_string (raw ''collectionId'');
     isFavorite \<leftarrow> z_optional z_boolean (raw ''isFavorite'');
     isPublic \<leftarrow> z_optional z_boolean (raw ''isPublic'');
     Some \<lparr>cr_question = question, cr_answer = answer, cr_hint = hint,
           cr_difficulty = difficulty, cr_category = category, cr_language = language,
           cr_collectionId = collectionId, cr_isFavorite = isFavorite, cr_isPublic = isPublic\<rparr>
   }"

definition updateRiddle_schema :: "jsobject \<Rightarrow> updateRiddle_input option" where
  "updateRiddle_schema raw = do {
     id \<leftarrow> z_min 1 z_string (raw ''id'');
     question \<leftarrow> z_optional (z_min 1 z_string) (raw ''question'');
     answer \<leftarrow> z_optional (z_min 1 z_string) (raw ''answer'');
     hint \<leftarrow> z_optional z_string (raw ''hint'');
     difficulty \<leftarrow> z_optional z_difficulty (raw ''difficulty'');
     category \<leftarrow> z_optional z_string (raw ''category'');
     language \<leftarrow> z_optional z_string (raw ''language'');
     collectionId \<leftarrow> z_optional (z_nullable z_string) (raw ''collectionId'');
     isFavorite \<leftarrow> z_optional z_boolean (raw ''isFavorite'');
     isPublic \<leftarrow> z_optional z_boolean (raw ''isPublic'');
     Some \<lparr>ur_id = id, ur_question = question, ur_answer = answer, ur_hint = hint,
           ur_difficulty = difficulty, ur_category = category, ur_language = language,
           ur_collectionId = collectionId, ur_isFavorite = isFavorite, ur_isPublic = isPublic\<rparr>
   }"

definition deleteRiddle_schema :: "jsobject \<Rightarrow> deleteRiddle_input option" where
  "deleteRiddle_schema raw = do {
     id \<leftarrow> z_min 1 z_string (raw ''id'');
     Some \<lparr>dr_id = id\<rparr>
   }"

definition listMyCollections_schema :: "jsobject \<Rightarrow> listMyCollections_input option" where
  "listMyCollections_schema raw = do {
     page \<leftarrow> z_page (raw ''page'');
     pageSize \<leftarrow> z_pageSize (raw ''pageSize'');
     Some \<lparr>lc_page = page, lc_pageSize = pageSize\<rparr>
   }"

definition listMyRiddles_schema :: "jsobject \<Rightarrow> listMyRiddles_input option" where
  "listMyRiddles_schema raw = do {
     collectionId \<leftarrow> z_optional z_string (raw ''collectionId'');
     favoritesOnly \<leftarrow> z_optional z_boolean (raw ''favoritesOnly'');
     difficulty \<leftarrow> z_optional z_difficulty (raw ''difficulty'');
     category \<leftarrow> z_optional z_string (raw ''category'');
     page \<leftarrow> z_page (raw ''page'');
     pageSize \<leftarrow> z_pageSize (raw ''pageSize'');
     Some \<lparr>lr_collectionId = collectionId, lr_favoritesOnly = favoritesOnly,
           lr_difficulty = difficulty, lr_category = category, lr_page = page,
           lr_pageSize = pageSize\<rparr>
   }"

text \<open>
  \<^verbatim>\<open>defineAction({ input, handler })\<close>: the raw input is parsed against the schema first,
  and the handler runs on the parsed value only when that succeeds.
\<close>

definition defineAction ::
  "(jsobject \<Rightarrow> 'i option) \<Rightarrow> ('i \<Rightarrow> db \<Rightarrow> 'a result) \<Rightarrow> jsobject \<Rightarrow> db \<Rightarrow> 'a result" where
  "defineAction schema handler raw s =
     (case schema raw of
        None \<Rightarrow> (Inl ActionInputError, s)
      | Some input \<Rightarrow> handler input s)"

definition createRiddleCollection ::
  "jsobject \<Rightarrow> action_context \<Rightarrow> date \<Rightarrow> string \<Rightarrow> db \<Rightarrow> collection option result" where
  "createRiddleCollection raw context now uuid =
     defineAction createRiddleCollection_schema
       (\<lambda>input. createRiddleCollection_handler input context now uuid) raw"

definition updateRiddleCollection ::
  "jsobject \<Rightarrow> action_context \<Rightarrow> date \<Rightarrow> db \<Rightarrow> collection option result" where
  "updateRiddleCollection raw context now =
     defineAction updateRiddleCollection_schema
       (\<lambda>input. updateRiddleCollection_handler input context now) raw"

definition deleteRiddleCollection ::
  "jsobject \<Rightarrow> action_context \<Rightarrow> date \<Rightarrow> db \<Rightarrow> unit result" where
  "deleteRiddleCollection raw context now =
     defineAction deleteRiddleCollection_schema
       (\<lambda>input. deleteRiddleCollection_handler input context now) raw"

definition createRiddle ::
  "jsobject \<Rightarrow> action_context \<Rightarrow> date \<Rightarrow> string \<Rightarrow> db \<Rightarrow> riddle option result" where
  "createRiddle raw context now uuid =
     defineAction createRiddle_schema
       (\<lambda>input. createRiddle_handler input context now uuid) raw"

definition updateRiddle ::
  "jsobject \<Rightarrow> action_context \<Rightarrow> date \<Rightarrow> db \<Rightarrow> riddle option result" where
  "updateRiddle raw context now =
     defineAction updateRiddle_schema
       (\<lambda>input. updateRiddle_handler input context now) raw"

definition deleteRiddle :: "jsobject \<Rightarrow> action_context \<Rightarrow> db \<Rightarrow> unit result" where
  "deleteRiddle raw context =
     defineAction deleteRiddle_schema (\<lambda>input. deleteRiddle_handler input context) raw"

definition listMyCollections ::
  "jsobject \<Rightarrow> action_context \<Rightarrow> db \<Rightarrow> collection listing result" where
  "listMyCollections raw context =
     defineAction listMyCollections_schema
       (\<lambda>input. listMyCollections_handler input context) raw"

definition listMyRiddles :: "jsobject \<Rightarrow> action_context \<Rightarrow> db \<Rightarrow> riddle listing result" where
  "listMyRiddles raw context =
     defineAction listMyRiddles_schema (\<lambda>input. listMyRiddles_handler input context) raw"

subsection \<open>Example data\<close>

text \<open>
  Two users, a signed-out request, and a small store: Alice owns the default collection
  "Logic" and two riddles, one of them in "Logic"; Bob owns the collection "Wordplay".
\<close>

definition alice :: user where
  "alice = \<lparr>u_id = ''alice''\<rparr>"

definition bob :: user where
  "bob = \<lparr>u_id = ''bob''\<rparr>"

definition signed_in :: "user \<Rightarrow> action_context" where
  "signed_in u = \<lparr>ctx_locals = Some \<lparr>l_user = Some u\<rparr>\<rparr>"

definition signed_out :: action_context where
  "signed_out = \<lparr>ctx_locals = Some \<lparr>l_user = None\<rparr>\<rparr>"

definition logic :: collection where
  "logic = \<lparr>c_id = ''c1'', c_userId = ''alice'', c_name = ''Logic'', c_description = None,
            c_icon = None, c_isDefault = True, c_createdAt = 1, c_updatedAt = 1\<rparr>"

definition wordplay :: collection where
  "wordplay = \<lparr>c_id = ''c2'', c_userId = ''bob'', c_name = ''Wordplay'', c_description = None,
               c_icon = None, c_isDefault = False, c_createdAt = 2, c_updatedAt = 2\<rparr>"

definition piano :: riddle where
  "piano = \<lparr>r_id = ''r1'', r_collectionId = Some ''c1'', r_userId = ''alice'',
            r_question = ''What has keys but no locks?'', r_answer = ''A piano'',
            r_hint = None, r_difficulty = Some ''easy'', r_category = Some ''music'',
            r_language = None, r_isFavorite = False, r_isPublic = False,
            r_createdAt = 3, r_updatedAt = 3\<rparr>"

definition echo :: riddle where
  "echo = \<lparr>r_id = ''r2'', r_collectionId = None, r_userId = ''alice'',
           r_question = ''What speaks without a mouth?'', r_answer = ''An echo'',
           r_hint = None, r_difficulty = None, r_category = None,
           r_language = None, r_isFavorite = True, r_isPublic = False,
           r_createdAt = 4, r_updatedAt = 4\<rparr>"

definition example_db :: db where
  "example_db = \<lparr>collections = [logic, wordplay], riddles = [piano, echo], issued = []\<rparr>"

text \<open>The object with no field, for building raw inputs.\<close>

definition no_fields :: jsobject where
  "no_fields = (\<lambda>_. JUndefined)"

subsection \<open>Notions used by the properties\<close>

text \<open>Two stores have the same rows when both tables agree; the statement log may differ.\<close>

definition same_rows :: "db \<Rightarrow> db \<Rightarrow> bool" where
  "same_rows s s' = (collections s' = collections s \<and> riddles s' = riddles s)"

text \<open>The default collections of a user, in table order.\<close>

definition defaults_of :: "string \<Rightarrow> db \<Rightarrow> collection list" where
  "defaults_of uid s = filter (\<lambda>c. c_userId c = uid \<and> c_isDefault c) (collections s)"

text \<open>
  Partial update, in the words of the specification: a field that the input does not
  supply keeps its previous value, a field that it supplies takes the supplied value.
\<close>

definition supplied :: "'a option \<Rightarrow> 'a \<Rightarrow> 'a \<Rightarrow> bool" where
  "supplied v before after = (case v of None \<Rightarrow> after = before | Some x \<Rightarrow> after = x)"

text \<open>What a supplied \<^verbatim>\<open>collectionId\<close> stores: \<^verbatim>\<open>null\<close> is NULL.\<close>

definition column_of :: "'a nullable \<Rightarrow> 'a option" where
  "column_of v = (case v of Null \<Rightarrow> None | Value x \<Rightarrow> Some x)"

text \<open>
  The frame of \<^verbatim>\<open>updateRiddle\<close> between a row before and after: \<open>id\<close>, \<open>userId\<close>
  and \<open>createdAt\<close> are kept, \<open>updatedAt\<close> is the time of the call, and every other
  field is as supplied.
\<close>

definition riddle_frame :: "updateRiddle_input \<Rightarrow> date \<Rightarrow> riddle \<Rightarrow> riddle \<Rightarrow> bool" where
  "riddle_frame input now before after =
     (r_id after = r_id before
      \<and> r_userId after = r_userId before
      \<and> r_createdAt after = r_createdAt before
      \<and> r_updatedAt after = now
      \<and> supplied (ur_question input) (r_question before) (r_question after)
      \<and> supplied (ur_answer input) (r_answer before) (r_answer after)
      \<and> supplied (map_option Some (ur_hint input)) (r_hint before) (r_hint after)
      \<and> supplied (map_option Some (ur_difficulty input)) (r_difficulty before) (r_difficulty after)
      \<and> supplied (map_option Some (ur_category input)) (r_category before) (r_category after)
      \<and> supplied (map_option Some (ur_language input)) (r_language before) (r_language after)
      \<and> supplied (map_option column_of (ur_collectionId input))
           (r_collectionId before) (r_collectionId after)
      \<and> supplied (ur_isFavorite input) (r_isFavorite before) (r_isFavorite after)
      \<and> supplied (ur_isPublic input) (r_isPublic before) (r_isPublic after))"

text \<open>The same for \<^verbatim>\<open>updateRiddleCollection\<close>.\<close>

definition collection_frame ::
  "updateRiddleCollection_input \<Rightarrow> date \<Rightarrow> collection \<Rightarrow> collection \<Rightarrow> bool" where
  "collection_frame input now before after =
     (c_id after = c_id before
      \<and> c_userId after = c_userId before
      \<and> c_createdAt after = c_createdAt before
      \<and> c_updatedAt after = now
      \<and> supplied (uc_name input) (c_name before) (c_name after)
      \<and> supplied (map_option Some (uc_description input)) (c_description before) (c_description after)
      \<and> supplied (map_option Some (uc_icon input)) (c_icon before) (c_icon after)
      \<and> supplied (uc_isDefault input) (c_isDefault before) (c_isDefault after))"

text \<open>
  The page window in the words of the specification: at most \<open>pageSize\<close> rows starting at
  offset \<open>(page - 1) * pageSize\<close>.
\<close>

definition page_of :: "int \<Rightarrow> int \<Rightarrow> 'a list \<Rightarrow> 'a list" where
  "page_of page pageSize rows = take (nat pageSize) (drop (nat ((page - 1) * pageSize)) rows)"

text \<open>
  The rows a listing of riddles is for, as the specification words it: the caller's rows
  that satisfy every filter the input provides.
\<close>

definition matches_provided :: "listMyRiddles_input \<Rightarrow> string \<Rightarrow> riddle \<Rightarrow> bool" where
  "matches_provided input uid r =
     (r_userId r = uid
      \<and> (case lr_collectionId input of None \<Rightarrow> True | Some c \<Rightarrow> r_collectionId r = Some c)
      \<and> (case lr_favoritesOnly input of None \<Rightarrow> True
          | Some b \<Rightarrow> (if b then r_isFavorite r else True))
      \<and> (case lr_difficulty input of None \<Rightarrow> True | Some d \<Rightarrow> r_difficulty r = Some d)
      \<and> (case lr_category input of None \<Rightarrow> True | Some c \<Rightarrow> r_category r = Some c))"

text \<open>
  The same with a filter counted only when its value is truthy: an empty string restricts
  nothing.
\<close>

definition matches_truthy :: "listMyRiddles_input \<Rightarrow> string \<Rightarrow> riddle \<Rightarrow> bool" where
  "matches_truthy input uid r =
     (r_userId r = uid
      \<and> (case lr_collectionId input of None \<Rightarrow> True
          | Some c \<Rightarrow> (if c = [] then True else r_collectionId r = Some c))
      \<and> (case lr_favoritesOnly input of None \<Rightarrow> True
          | Some b \<Rightarrow> (if b then r_isFavorite r else True))
      \<and> (case lr_difficulty input of None \<Rightarrow> True
          | Some d \<Rightarrow> (if d = [] then True else r_difficulty r = Some d))
      \<and> (case lr_category input of None \<Rightarrow> True
          | Some c \<Rightarrow> (if c = [] then True else r_category r = Some c)))"

text \<open>
  The referential-ownership invariant: the \<open>collectionId\<close> of every riddle, when it is
  not NULL, is the \<open>id\<close> of a collection whose owner is the riddle's owner.
\<close>

definition owned_references :: "db \<Rightarrow> bool" where
  "owned_references s =
     list_all (\<lambda>r. case r_collectionId r of
                     None \<Rightarrow> True
                   | Some cid \<Rightarrow> list_ex (\<lambda>c. c_id c = cid \<and> c_userId c = r_userId r) (collections s))
       (riddles s)"

text \<open>Every collection id came from \<^verbatim>\<open>crypto.randomUUID()\<close>, so none is the empty string.\<close>

definition collection_ids_nonempty :: "db \<Rightarrow> bool" where
  "collection_ids_nonempty s = list_all (\<lambda>c. c_id c \<noteq> []) (collections s)"

text \<open>The invariant that the actions preserve: both of the above.\<close>

definition well_referenced :: "db \<Rightarrow> bool" where
  "well_referenced s = (owned_references s \<and> collection_ids_nonempty s)"

definition empty_db :: db where
  "empty_db = \<lparr>collections = [], riddles = [], issued = []\<rparr>"

text \<open>
  The states the eight actions can reach from the empty store, for every raw input, request
  context and time of call. \<^verbatim>\<open>crypto.randomUUID()\<close> returns a string of 36 characters; all
  that is used of it is that the id of a new collection is not empty.
\<close>

inductive reachable :: "db \<Rightarrow> bool" where
  initial: "reachable empty_db"
| by_createRiddleCollection:
    "reachable s \<Longrightarrow> uuid \<noteq> [] \<Longrightarrow> reachable (snd (createRiddleCollection raw ctx now uuid s))"
| by_updateRiddleCollection:
    "reachable s \<Longrightarrow> reachable (snd (updateRiddleCollection raw ctx now s))"
| by_deleteRiddleCollection:
    "reachable s \<Longrightarrow> reachable (snd (deleteRiddleCollection raw ctx now s))"
| by_createRiddle:
    "reachable s \<Longrightarrow> reachable (snd (createRiddle raw ctx now uuid s))"
| by_updateRiddle:
    "reachable s \<Longrightarrow> reachable (snd (updateRiddle raw ctx now s))"
| by_deleteRiddle:
    "reachable s \<Longrightarrow> reachable (snd (deleteRiddle raw ctx s))"
| by_listMyCollections:
    "reachable s \<Longrightarrow> reachable (snd (listMyCollections raw ctx s))"
| by_listMyRiddles:
    "reachable s \<Longrightarrow> reachable (snd (listMyRiddles raw ctx s))"

section \<open>Properties\<close>

subsection \<open>Basic facts\<close>

lemma record_statement_sel [simp]:
  "collections (record_statement q s) = collections s"
  "riddles (record_statement q s) = riddles s"
  "issued (record_statement q s) = issued s @ [q]"
  by (simp_all add: record_statement_def)

lemma snd_case_result [simp]:
  "snd (case x of (Inl e, s2) \<Rightarrow> (Inl e, s2) | (Inr rows, s2) \<Rightarrow> (Inr (g rows), s2)) = snd x"
  by (auto split: prod.splits sum.splits)

declare bit_length.simps [simp del]

lemma to_double_exact: "\<bar>n\<bar> < 2 ^ 53 \<Longrightarrow> to_double n = n"
proof -
  assume "\<bar>n\<bar> < 2 ^ 53"
  then have "nat \<bar>n\<bar> < 2 ^ 53" by simp
  then show ?thesis by (simp add: to_double_def Let_def)
qed

lemma select_page_rows [simp]:
  "collections (snd (select_collections_page pc n k s)) = collections s"
  "riddles (snd (select_collections_page pc n k s)) = riddles s"
  "collections (snd (select_riddles_page pr n k s)) = collections s"
  "riddles (snd (select_riddles_page pr n k s)) = riddles s"
  by (simp_all add: select_collections_page_def select_riddles_page_def)

lemma requireUser_none:
  "locals_user ctx = None \<Longrightarrow> requireUser ctx = Inl (ActionError UNAUTHORIZED)"
  by (simp add: requireUser_def)

lemma requireUser_some: "locals_user ctx = Some u \<Longrightarrow> requireUser ctx = Inr u"
  by (simp add: requireUser_def)

lemma locals_user_signed_in [simp]: "locals_user (signed_in u) = Some u"
  by (simp add: locals_user_def signed_in_def)

lemma locals_user_signed_out [simp]: "locals_user signed_out = None"
  by (simp add: locals_user_def signed_out_def)

subsection \<open>Unauthenticated requests\<close>

text \<open>
  Claim C9. When the request context carries no user, every handler fails with
  \<^verbatim>\<open>UNAUTHORIZED\<close> and returns the store as it received it: no row is changed and no
  statement is issued, not even a select. This holds for every input the handler can be
  given.
\<close>

theorem unauthenticated_no_access:
  assumes "locals_user ctx = None"
  shows "createRiddleCollection_handler in_cc ctx now uuid s = (Inl (ActionError UNAUTHORIZED), s)
       \<and> updateRiddleCollection_handler in_uc ctx now s = (Inl (ActionError UNAUTHORIZED), s)
       \<and> deleteRiddleCollection_handler in_dc ctx now s = (Inl (ActionError UNAUTHORIZED), s)
       \<and> createRiddle_handler in_cr ctx now uuid s = (Inl (ActionError UNAUTHORIZED), s)
       \<and> updateRiddle_handler in_ur ctx now s = (Inl (ActionError UNAUTHORIZED), s)
       \<and> deleteRiddle_handler in_dr ctx s = (Inl (ActionError UNAUTHORIZED), s)
       \<and> listMyCollections_handler in_lc ctx s = (Inl (ActionError UNAUTHORIZED), s)
       \<and> listMyRiddles_handler in_lr ctx s = (Inl (ActionError UNAUTHORIZED), s)"
  using requireUser_none [OF assms]
  by (simp add: createRiddleCollection_handler_def updateRiddleCollection_handler_def
      deleteRiddleCollection_handler_def createRiddle_handler_def updateRiddle_handler_def
      deleteRiddle_handler_def listMyCollections_handler_def listMyRiddles_handler_def)

theorem unauthenticated_no_access_witness:
  "locals_user signed_out = None
   \<and> deleteRiddleCollection_handler \<lparr>dc_id = ''c1''\<rparr> signed_out 9 example_db
       = (Inl (ActionError UNAUTHORIZED), example_db)
   \<and> listMyRiddles_handler
        \<lparr>lr_collectionId = None, lr_favoritesOnly = None, lr_difficulty = None,
         lr_category = None, lr_page = 1, lr_pageSize = 20\<rparr> signed_out example_db
       = (Inl (ActionError UNAUTHORIZED), example_db)"
  using unauthenticated_no_access
    [where ctx = signed_out and in_dc = "\<lparr>dc_id = ''c1''\<rparr>" and now = 9 and s = example_db]
  by simp

subsection \<open>Listing does not write\<close>

lemma listMyCollections_handler_tables:
  "collections (snd (listMyCollections_handler i ctx s)) = collections s \<and>
   riddles (snd (listMyCollections_handler i ctx s)) = riddles s"
  by (simp add: listMyCollections_handler_def split: sum.splits)

lemma listMyRiddles_handler_tables:
  "collections (snd (listMyRiddles_handler i ctx s)) = collections s \<and>
   riddles (snd (listMyRiddles_handler i ctx s)) = riddles s"
  by (simp add: listMyRiddles_handler_def split: sum.splits)

text \<open>
  Claim C10. For every store, every raw input (valid or not) and every request context,
  the store that \<^verbatim>\<open>listMyCollections\<close> and \<^verbatim>\<open>listMyRiddles\<close> leave behind has the same
  rows in both tables as the store they were given.
\<close>

theorem listing_read_only:
  "collections (snd (listMyCollections raw ctx s)) = collections s \<and>
   riddles (snd (listMyCollections raw ctx s)) = riddles s \<and>
   collections (snd (listMyRiddles raw ctx s)) = collections s \<and>
   riddles (snd (listMyRiddles raw ctx s)) = riddles s"
  using listMyCollections_handler_tables listMyRiddles_handler_tables
  by (simp add: listMyCollections_def listMyRiddles_def defineAction_def split: option.splits)

subsection \<open>Rows that are not the caller's\<close>

lemma first_row_None [simp]: "first_row rows = None \<longleftrightarrow> rows = []"
  by (simp add: first_row_def split: list.splits)

lemma filter_nil_iff: "filter P xs = [] \<longleftrightarrow> (\<forall>x\<in>set xs. \<not> P x)"
  by (induction xs) auto

lemma updateRiddleCollection_not_found:
  assumes "locals_user ctx = Some user"
    and "\<forall>c\<in>set (collections s). \<not> (c_id c = uc_id input \<and> c_userId c = u_id user)"
  shows "updateRiddleCollection_handler input ctx now s
         = (Inl (ActionError NOT_FOUND), record_statement (SELECT RiddleCollections) s)"
  using assms(2) requireUser_some [OF assms(1)]
  by (simp add: updateRiddleCollection_handler_def select_collections_def filter_nil_iff)

lemma deleteRiddleCollection_not_found:
  assumes "locals_user ctx = Some user"
    and "\<forall>c\<in>set (collections s). \<not> (c_id c = dc_id input \<and> c_userId c = u_id user)"
  shows "deleteRiddleCollection_handler input ctx now s
         = (Inl (ActionError NOT_FOUND), record_statement (SELECT RiddleCollections) s)"
  using assms(2) requireUser_some [OF assms(1)]
  by (simp add: deleteRiddleCollection_handler_def select_collections_def filter_nil_iff)

lemma updateRiddle_not_found:
  assumes "locals_user ctx = Some user"
    and "\<forall>r\<in>set (riddles s). \<not> (r_id r = ur_id input \<and> r_userId r = u_id user)"
  shows "updateRiddle_handler input ctx now s
         = (Inl (ActionError NOT_FOUND), record_statement (SELECT Riddles) s)"
  using assms(2) requireUser_some [OF assms(1)]
  by (simp add: updateRiddle_handler_def select_riddles_def filter_nil_iff)

lemma deleteRiddle_not_found:
  assumes "locals_user ctx = Some user"
    and "\<forall>r\<in>set (riddles s). \<not> (r_id r = dr_id input \<and> r_userId r = u_id user)"
  shows "deleteRiddle_handler input ctx s
         = (Inl (ActionError NOT_FOUND), record_statement (SELECT Riddles) s)"
  using assms(2) requireUser_some [OF assms(1)]
  by (simp add: deleteRiddle_handler_def select_riddles_def filter_nil_iff)

lemma same_rows_record_statement [simp]: "same_rows s (record_statement q s)"
  by (simp add: same_rows_def)

text \<open>
  Claim C5. For an authenticated caller and an id that no row owned by the caller has (the
  row is absent, or it belongs to another user), \<^verbatim>\<open>updateRiddleCollection\<close>,
  \<^verbatim>\<open>deleteRiddleCollection\<close>, \<^verbatim>\<open>updateRiddle\<close> and \<^verbatim>\<open>deleteRiddle\<close> fail with
  \<^verbatim>\<open>NOT_FOUND\<close>, and both tables have the rows they had before.
\<close>

theorem not_owned_not_found:
  assumes "locals_user ctx = Some user"
  shows "((\<forall>c\<in>set (collections s). \<not> (c_id c = uc_id in_uc \<and> c_userId c = u_id user)) \<longrightarrow>
            fst (updateRiddleCollection_handler in_uc ctx now s) = Inl (ActionError NOT_FOUND)
            \<and> same_rows s (snd (updateRiddleCollection_handler in_uc ctx now s)))
       \<and> ((\<forall>c\<in>set (collections s). \<not> (c_id c = dc_id in_dc \<and> c_userId c = u_id user)) \<longrightarrow>
            fst (deleteRiddleCollection_handler in_dc ctx now s) = Inl (ActionError NOT_FOUND)
            \<and> same_rows s (snd (deleteRiddleCollection_handler in_dc ctx now s)))
       \<and> ((\<forall>r\<in>set (riddles s). \<not> (r_id r = ur_id in_ur \<and> r_userId r = u_id user)) \<longrightarrow>
            fst (updateRiddle_handler in_ur ctx now s) = Inl (ActionError NOT_FOUND)
            \<and> same_rows s (snd (updateRiddle_handler in_ur ctx now s)))
       \<and> ((\<forall>r\<in>set (riddles s). \<not> (r_id r = dr_id in_dr \<and> r_userId r = u_id user)) \<longrightarrow>
            fst (deleteRiddle_handler in_dr ctx s) = Inl (ActionError NOT_FOUND)
            \<and> same_rows s (snd (deleteRiddle_handler in_dr ctx s)))"
  using assms
  by (simp add: updateRiddleCollection_not_found deleteRiddleCollection_not_found
      updateRiddle_not_found deleteRiddle_not_found)

lemma example_db_sel [simp]:
  "collections example_db = [logic, wordplay]"
  "riddles example_db = [piano, echo]"
  "issued example_db = []"
  by (simp_all add: example_db_def)

theorem not_owned_not_found_witness:
  "locals_user (signed_in bob) = Some bob
   \<and> filter (\<lambda>c. c_id c = ''c1'' \<and> c_userId c = u_id bob) (collections example_db) = []
   \<and> fst (updateRiddleCollection_handler
            \<lparr>uc_id = ''c1'', uc_name = Some ''Mine'', uc_description = None, uc_icon = None,
             uc_isDefault = None\<rparr> (signed_in bob) 9 example_db) = Inl (ActionError NOT_FOUND)
   \<and> fst (deleteRiddleCollection_handler \<lparr>dc_id = ''c1''\<rparr> (signed_in bob) 9 example_db)
       = Inl (ActionError NOT_FOUND)
   \<and> filter (\<lambda>r. r_id r = ''r1'' \<and> r_userId r = u_id bob) (riddles example_db) = []
   \<and> fst (deleteRiddle_handler \<lparr>dr_id = ''r1''\<rparr> (signed_in bob) example_db)
       = Inl (ActionError NOT_FOUND)
   \<and> same_rows example_db (snd (deleteRiddle_handler \<lparr>dr_id = ''r1''\<rparr> (signed_in bob) example_db))"
  using not_owned_not_found [where ctx = "signed_in bob" and user = bob and s = example_db
      and in_uc = "\<lparr>uc_id = ''c1'', uc_name = Some ''Mine'', uc_description = None, uc_icon = None,
             uc_isDefault = None\<rparr>" and in_dc = "\<lparr>dc_id = ''c1''\<rparr>" and in_dr = "\<lparr>dr_id = ''r1''\<rparr>"
      and now = 9]
  by (simp add: bob_def logic_def wordplay_def piano_def echo_def)

subsection \<open>The single default collection\<close>

lemma first_row_single [simp]: "first_row [x] = Some x"
  by (simp add: first_row_def)

lemma cleared_no_default:
  "filter (\<lambda>c. c_userId c = uid \<and> c_isDefault c)
     (map (\<lambda>c. if c_userId c = uid then clear_default now c else c) cs) = []"
  by (induction cs) (auto simp: clear_default_def)

lemma length_filter_map_le:
  "(\<And>x. x \<in> set xs \<Longrightarrow> P (f x) \<Longrightarrow> Q x) \<Longrightarrow> length (filter P (map f xs)) \<le> length (filter Q xs)"
  by (induction xs) auto

lemma distinct_filter_key:
  "distinct (map k xs) \<Longrightarrow> x \<in> set xs \<Longrightarrow> filter (\<lambda>y. k y = k x) xs = [x]"
proof (induction xs)
  case Nil
  then show ?case by simp
next
  case (Cons a xs)
  show ?case
  proof (cases "a = x")
    case True
    with Cons.prems have "\<forall>y\<in>set xs. k y \<noteq> k x" by (auto simp: image_iff)
    then have "filter (\<lambda>y. k y = k x) xs = []" by (simp add: filter_nil_iff)
    with True show ?thesis by simp
  next
    case False
    with Cons.prems have "x \<in> set xs" "k a \<noteq> k x" by (auto simp: image_iff)
    with Cons show ?thesis by simp
  qed
qed

lemma createRiddleCollection_handler_success:
  assumes "requireUser ctx = Inr user"
    and "createRiddleCollection_handler input ctx now uuid s = (Inr row, s')"
  obtains c where "row = Some c" and "c_id c = uuid" and "c_userId c = u_id user"
    and "c_isDefault c = truthy_bool (cc_isDefault input)"
    and "collections s' =
           (if truthy_bool (cc_isDefault input)
            then map (\<lambda>c. if c_userId c = u_id user then clear_default now c else c) (collections s)
            else collections s) @ [c]"
    and "riddles s' = riddles s"
  using assms
  by (auto simp: createRiddleCollection_handler_def insert_collection_def update_collections_def
      truthy_bool_def Let_def split: if_splits option.splits)

lemma createRiddleCollection_default:
  assumes "locals_user ctx = Some user"
    and "length (defaults_of (u_id user) s) \<le> 1"
    and "createRiddleCollection_handler input ctx now uuid s = (Inr row, s')"
  shows "length (defaults_of (u_id user) s') \<le> 1 \<and>
         (cc_isDefault input = Some True \<longrightarrow>
            (\<exists>c. row = Some c \<and> c_id c = uuid \<and> defaults_of (u_id user) s' = [c]))"
proof -
  from requireUser_some [OF assms(1)] assms(3)
  obtain c where c: "row = Some c" "c_id c = uuid" "c_userId c = u_id user"
    "c_isDefault c = truthy_bool (cc_isDefault input)"
    "collections s' =
           (if truthy_bool (cc_isDefault input)
            then map (\<lambda>c. if c_userId c = u_id user then clear_default now c else c) (collections s)
            else collections s) @ [c]"
    by (rule createRiddleCollection_handler_success)
  show ?thesis
  proof (cases "truthy_bool (cc_isDefault input)")
    case True
    with c have "defaults_of (u_id user) s' = [c]"
      by (simp add: defaults_of_def cleared_no_default)
    with c show ?thesis by simp
  next
    case False
    with c have "defaults_of (u_id user) s' = defaults_of (u_id user) s"
      by (simp add: defaults_of_def)
    moreover from False have "cc_isDefault input \<noteq> Some True"
      by (auto simp: truthy_bool_def)
    ultimately show ?thesis using assms(2) by simp
  qed
qed

lemma updateRiddleCollection_handler_success:
  assumes "requireUser ctx = Inr user"
    and "updateRiddleCollection_handler input ctx now s = (Inr row, s')"
  shows "filter (\<lambda>c. c_id c = uc_id input \<and> c_userId c = u_id user) (collections s) \<noteq> []"
    and "collections s' =
           map (\<lambda>c. if c_id c = uc_id input \<and> c_userId c = u_id user
                    then collection_updateData input now c else c)
             (if truthy_bool (uc_isDefault input)
              then map (\<lambda>c. if c_userId c = u_id user then clear_default now c else c) (collections s)
              else collections s)"
    and "row = first_row (map (collection_updateData input now)
            (filter (\<lambda>c. c_id c = uc_id input \<and> c_userId c = u_id user)
               (if truthy_bool (uc_isDefault input)
                then map (\<lambda>c. if c_userId c = u_id user then clear_default now c else c) (collections s)
                else collections s)))"
    and "riddles s' = riddles s"
  using assms
  by (auto simp: updateRiddleCollection_handler_def select_collections_def update_collections_def
      Let_def split: if_splits)


lemma clear_default_keys [simp]:
  "c_id (clear_default now c) = c_id c"
  "c_userId (clear_default now c) = c_userId c"
  "c_isDefault (clear_default now c) = False"
  by (simp_all add: clear_default_def)

lemma collection_updateData_keys [simp]:
  "c_id (collection_updateData input now c) = c_id c"
  "c_userId (collection_updateData input now c) = c_userId c"
  "c_isDefault (collection_updateData input now c)
     = (case uc_isDefault input of None \<Rightarrow> c_isDefault c | Some v \<Rightarrow> v)"
  by (simp_all add: collection_updateData_def)

lemma filter_target_cleared:
  "filter (\<lambda>c. c_id c = i \<and> c_userId c = u)
     (map (\<lambda>c. if c_userId c = u then clear_default now c else c) cs)
   = map (\<lambda>c. if c_userId c = u then clear_default now c else c)
       (filter (\<lambda>c. c_id c = i \<and> c_userId c = u) cs)"
  by (induction cs) auto

lemma updateRiddleCollection_default:
  assumes "locals_user ctx = Some user"
    and "distinct (map c_id (collections s))"
    and "length (defaults_of (u_id user) s) \<le> 1"
    and "updateRiddleCollection_handler input ctx now s = (Inr row, s')"
  shows "length (defaults_of (u_id user) s') \<le> 1 \<and>
         (uc_isDefault input = Some True \<longrightarrow>
            (\<exists>c. row = Some c \<and> c_id c = uc_id input \<and> defaults_of (u_id user) s' = [c]))"
proof -
  let ?U = "u_id user"
  let ?target = "\<lambda>c. c_id c = uc_id input \<and> c_userId c = ?U"
  let ?upd = "collection_updateData input now"
  let ?clr = "\<lambda>c. if c_userId c = ?U then clear_default now c else c"
  let ?step = "\<lambda>c. if ?target c then ?upd c else c"
  let ?D = "\<lambda>c. c_userId c = ?U \<and> c_isDefault c"
  note ok = updateRiddleCollection_handler_success [OF requireUser_some [OF assms(1)] assms(4)]
  from ok(1) obtain t where t: "t \<in> set (collections s)" "c_id t = uc_id input" "c_userId t = ?U"
    by (auto simp: filter_nil_iff)
  have "filter (\<lambda>c. c_id c = c_id t) (collections s) = [t]"
    using distinct_filter_key [OF assms(2) t(1)] .
  moreover have "filter ?target (collections s) = filter (\<lambda>c. c_id c = c_id t) (collections s)"
  proof (rule filter_cong [OF refl])
    fix c assume "c \<in> set (collections s)"
    show "?target c = (c_id c = c_id t)"
    proof
      assume "?target c" then show "c_id c = c_id t" using t(2) by simp
    next
      assume "c_id c = c_id t"
      with \<open>c \<in> set (collections s)\<close>
      have "c \<in> set (filter (\<lambda>c. c_id c = c_id t) (collections s))" by simp
      with \<open>filter (\<lambda>c. c_id c = c_id t) (collections s) = [t]\<close> have "c = t" by simp
      with t show "?target c" by simp
    qed
  qed
  ultimately have only: "filter ?target (collections s) = [t]" by simp
  show ?thesis
  proof (cases "uc_isDefault input = Some True")
    case True
    then have truthy: "truthy_bool (uc_isDefault input)" by (simp add: truthy_bool_def)
    have "filter ?target (map ?clr (collections s)) = map ?clr (filter ?target (collections s))"
      by (rule filter_target_cleared)
    with only ok(3) truthy have row: "row = Some (?upd (?clr t))" by simp
    have "defaults_of ?U s' = filter ?D (map (\<lambda>c. ?step (?clr c)) (collections s))"
      using ok(2) truthy by (simp add: defaults_of_def o_def)
    also have "\<dots> = map (\<lambda>c. ?step (?clr c)) (filter (\<lambda>c. ?D (?step (?clr c))) (collections s))"
      by (simp add: filter_map o_def)
    also have "filter (\<lambda>c. ?D (?step (?clr c))) (collections s) = filter ?target (collections s)"
      by (rule filter_cong [OF refl]) (use True in auto)
    also have "map (\<lambda>c. ?step (?clr c)) (filter ?target (collections s)) = [?upd (?clr t)]"
      using only t by simp
    finally have "defaults_of ?U s' = [?upd (?clr t)]" .
    with row t show ?thesis by simp
  next
    case False
    then have falsy: "\<not> truthy_bool (uc_isDefault input)"
      by (auto simp: truthy_bool_def split: option.splits)
    have "length (defaults_of ?U s') = length (filter ?D (map ?step (collections s)))"
      using ok(2) falsy by (simp add: defaults_of_def)
    also have "\<dots> \<le> length (filter ?D (collections s))"
      by (rule length_filter_map_le) (use False in \<open>auto split: option.splits if_splits\<close>)
    finally show ?thesis using assms(3) False by (simp add: defaults_of_def)
  qed
qed


lemmas store_defs =
  select_collections_def select_riddles_def select_collections_page_def select_riddles_page_def
  update_collections_def insert_collection_def delete_collections_def referenced_def
  resolves_def insert_riddle_def update_riddles_def delete_riddles_def page_window_def
  sqlite_integer_def js_minus_def js_times_def to_double_exact

lemmas example_defs =
  alice_def bob_def logic_def wordplay_def piano_def echo_def

text \<open>
  Claim C1. Let the caller be authenticated, let the ids of the collections be distinct (the
  primary key) and let the caller have at most one default collection. After a successful
  \<^verbatim>\<open>createRiddleCollection\<close> or \<^verbatim>\<open>updateRiddleCollection\<close> the caller still has at most
  one default collection; and when the input has \<^verbatim>\<open>isDefault: true\<close>, the caller's only
  default collection is the returned row, which is the created row (its id is the fresh
  id) or the target row (its id is the input's id).
\<close>

theorem single_default_preserved:
  assumes "locals_user ctx = Some user"
    and "distinct (map c_id (collections s))"
    and "length (defaults_of (u_id user) s) \<le> 1"
  shows "(createRiddleCollection_handler in_cc ctx now uuid s = (Inr created, s_created) \<longrightarrow>
            length (defaults_of (u_id user) s_created) \<le> 1 \<and>
            (cc_isDefault in_cc = Some True \<longrightarrow>
               (\<exists>c. created = Some c \<and> c_id c = uuid \<and> defaults_of (u_id user) s_created = [c])))
       \<and> (updateRiddleCollection_handler in_uc ctx now s = (Inr updated, s_updated) \<longrightarrow>
            length (defaults_of (u_id user) s_updated) \<le> 1 \<and>
            (uc_isDefault in_uc = Some True \<longrightarrow>
               (\<exists>c. updated = Some c \<and> c_id c = uc_id in_uc \<and> defaults_of (u_id user) s_updated = [c])))"
  using createRiddleCollection_default [OF assms(1,3)]
    updateRiddleCollection_default [OF assms]
  by blast

theorem single_default_preserved_witness:
  "locals_user (signed_in alice) = Some alice
   \<and> distinct (map c_id (collections example_db))
   \<and> length (defaults_of (u_id alice) example_db) \<le> 1
   \<and> fst (createRiddleCollection_handler
            \<lparr>cc_name = ''Kids'', cc_description = None, cc_icon = None, cc_isDefault = Some True\<rparr>
            (signed_in alice) 9 ''c3'' example_db)
       = Inr (Some \<lparr>c_id = ''c3'', c_userId = ''alice'', c_name = ''Kids'', c_description = None,
                    c_icon = None, c_isDefault = True, c_createdAt = 9, c_updatedAt = 9\<rparr>)
   \<and> defaults_of (u_id alice)
        (snd (createRiddleCollection_handler
            \<lparr>cc_name = ''Kids'', cc_description = None, cc_icon = None, cc_isDefault = Some True\<rparr>
            (signed_in alice) 9 ''c3'' example_db))
       = [\<lparr>c_id = ''c3'', c_userId = ''alice'', c_name = ''Kids'', c_description = None,
           c_icon = None, c_isDefault = True, c_createdAt = 9, c_updatedAt = 9\<rparr>]
   \<and> fst (updateRiddleCollection_handler
            \<lparr>uc_id = ''c1'', uc_name = None, uc_description = Some ''Puzzles'', uc_icon = None,
             uc_isDefault = Some True\<rparr> (signed_in alice) 9 example_db)
       = Inr (Some \<lparr>c_id = ''c1'', c_userId = ''alice'', c_name = ''Logic'',
                    c_description = Some ''Puzzles'', c_icon = None, c_isDefault = True,
                    c_createdAt = 1, c_updatedAt = 9\<rparr>)
   \<and> defaults_of (u_id alice)
        (snd (updateRiddleCollection_handler
            \<lparr>uc_id = ''c1'', uc_name = None, uc_description = Some ''Puzzles'', uc_icon = None,
             uc_isDefault = Some True\<rparr> (signed_in alice) 9 example_db))
       = [\<lparr>c_id = ''c1'', c_userId = ''alice'', c_name = ''Logic'',
           c_description = Some ''Puzzles'', c_icon = None, c_isDefault = True,
           c_createdAt = 1, c_updatedAt = 9\<rparr>]"
proof -
  let ?input = "\<lparr>cc_name = ''Kids'', cc_description = None, cc_icon = None,
                  cc_isDefault = Some True\<rparr>"
  let ?kids = "\<lparr>c_id = ''c3'', c_userId = ''alice'', c_name = ''Kids'', c_description = None,
                 c_icon = None, c_isDefault = True, c_createdAt = 9, c_updatedAt = 9\<rparr>"
  let ?run = "createRiddleCollection_handler ?input (signed_in alice) 9 ''c3'' example_db"
  have h1: "locals_user (signed_in alice) = Some alice" by simp
  have h2: "distinct (map c_id (collections example_db))" by (simp add: example_defs)
  have h3: "length (defaults_of (u_id alice) example_db) \<le> 1"
    by (simp add: defaults_of_def example_defs)
  have run: "fst ?run = Inr (Some ?kids)"
    by (simp add: createRiddleCollection_handler_def requireUser_def truthy_bool_def
        store_defs example_defs)
  let ?input' = "\<lparr>uc_id = ''c1'', uc_name = None, uc_description = Some ''Puzzles'',
                   uc_icon = None, uc_isDefault = Some True\<rparr>"
  let ?logic = "\<lparr>c_id = ''c1'', c_userId = ''alice'', c_name = ''Logic'',
                  c_description = Some ''Puzzles'', c_icon = None, c_isDefault = True,
                  c_createdAt = 1, c_updatedAt = 9\<rparr>"
  let ?run' = "updateRiddleCollection_handler ?input' (signed_in alice) 9 example_db"
  have run': "fst ?run' = Inr (Some ?logic)"
    by (simp add: updateRiddleCollection_handler_def requireUser_def truthy_bool_def
        collection_updateData_def clear_default_def first_row_def store_defs example_defs)
  from run have eq: "?run = (Inr (Some ?kids), snd ?run)" by (simp add: prod_eq_iff)
  from run' have eq': "?run' = (Inr (Some ?logic), snd ?run')" by (simp add: prod_eq_iff)
  note inst = single_default_preserved [OF h1 h2 h3,
      where in_cc = ?input and now = 9 and uuid = "''c3''" and created = "Some ?kids"
        and s_created = "snd ?run" and in_uc = ?input' and updated = "Some ?logic"
        and s_updated = "snd ?run'"]
  from inst eq have "defaults_of (u_id alice) (snd ?run) = [?kids]" by auto
  moreover from inst eq' have "defaults_of (u_id alice) (snd ?run') = [?logic]" by auto
  ultimately show ?thesis using h1 h2 h3 run run' by simp
qed

subsection \<open>Deleting a collection\<close>

lemma detach_never_violates:
  "\<not> list_ex (\<lambda>r. r_collectionId (detach now r) \<noteq> r_collectionId r \<and> \<not> resolves s (detach now r)) rs"
  by (simp add: list_ex_iff detach_def resolves_def)

lemma detach_keeps_ids:
  "map r_id (map (\<lambda>r. if P r then detach now r else r) rs) = map r_id rs"
  by (induction rs) (simp_all add: detach_def)



lemma update_riddles_detach:
  "update_riddles (detach now) P s
     = (Inr (map (detach now) (filter P (riddles s))),
        record_statement (UPDATE Riddles)
          (s\<lparr>riddles := map (\<lambda>r. if P r then detach now r else r) (riddles s)\<rparr>))"
  by (simp add: update_riddles_def detach_never_violates)

lemma delete_collections_Inr:
  assumes "delete_collections p s = (Inr u, s')"
  shows "\<not> list_ex (referenced s) (filter p (collections s))"
    and "collections s' = filter (\<lambda>c. \<not> p c) (collections s)"
    and "riddles s' = riddles s"
  using assms by (auto simp: delete_collections_def split: if_splits)

lemma deleteRiddleCollection_handler_unfold:
  assumes "requireUser ctx = Inr user"
    and "filter (\<lambda>c. c_id c = dc_id input \<and> c_userId c = u_id user) (collections s) \<noteq> []"
  shows "deleteRiddleCollection_handler input ctx now s =
           delete_collections (\<lambda>c. c_id c = dc_id input \<and> c_userId c = u_id user)
             (snd (update_riddles (detach now)
                (\<lambda>r. r_collectionId r = Some (dc_id input) \<and> r_userId r = u_id user)
                (record_statement (SELECT RiddleCollections) s)))"
  using assms
  by (simp add: deleteRiddleCollection_handler_def select_collections_def update_riddles_detach)

lemma deleteRiddleCollection_handler_success:
  assumes "requireUser ctx = Inr user"
    and "deleteRiddleCollection_handler input ctx now s = (Inr (), s')"
  shows "filter (\<lambda>c. c_id c = dc_id input \<and> c_userId c = u_id user) (collections s) \<noteq> []"
    and "riddles s' =
           map (\<lambda>r. if r_collectionId r = Some (dc_id input) \<and> r_userId r = u_id user
                    then detach now r else r) (riddles s)"
    and "collections s' =
           filter (\<lambda>c. \<not> (c_id c = dc_id input \<and> c_userId c = u_id user)) (collections s)"
    and "\<forall>r\<in>set (riddles s'). r_collectionId r \<noteq> Some (dc_id input)"
proof -
  let ?target = "\<lambda>c. c_id c = dc_id input \<and> c_userId c = u_id user"
  let ?mine = "\<lambda>r. r_collectionId r = Some (dc_id input) \<and> r_userId r = u_id user"
  let ?s2 = "snd (update_riddles (detach now) ?mine (record_statement (SELECT RiddleCollections) s))"
  from assms show found: "filter ?target (collections s) \<noteq> []"
    by (auto simp: deleteRiddleCollection_handler_def select_collections_def split: if_splits)
  have del: "delete_collections ?target ?s2 = (Inr (), s')"
    using assms(2) by (simp only: deleteRiddleCollection_handler_unfold [OF assms(1) found])
  have r2: "riddles ?s2 = map (\<lambda>r. if ?mine r then detach now r else r) (riddles s)"
    and c2: "collections ?s2 = collections s"
    by (simp_all add: update_riddles_detach)
  note d = delete_collections_Inr [OF del]
  from d(3) r2 show rs: "riddles s' = map (\<lambda>r. if ?mine r then detach now r else r) (riddles s)"
    by simp
  from d(2) c2 show "collections s' = filter (\<lambda>c. \<not> ?target c) (collections s)"
    by simp
  from found obtain t where t: "t \<in> set (collections s)" "c_id t = dc_id input" "c_userId t = u_id user"
    by (auto simp: filter_nil_iff)
  with d(1) c2 have "\<not> referenced ?s2 t" by (auto simp: list_ex_iff)
  then have "\<forall>r\<in>set (riddles ?s2). r_collectionId r \<noteq> Some (dc_id input)"
    using t(2) by (simp add: referenced_def list_ex_iff)
  with d(3) show "\<forall>r\<in>set (riddles s'). r_collectionId r \<noteq> Some (dc_id input)"
    by simp
qed

text \<open>
  Claim C2. After a successful \<^verbatim>\<open>deleteRiddleCollection\<close> by an authenticated caller: no
  collection of the caller has the deleted id any more; the riddles table has the same
  rows in the same order under the same ids (no riddle is deleted); every riddle that
  referenced the deleted id is the same row with \<open>collectionId\<close> NULL and \<open>updatedAt\<close>
  the time of the call, and every other riddle is untouched; and no riddle references the
  deleted id.
\<close>

theorem delete_collection_detaches:
  assumes "locals_user ctx = Some user"
    and "deleteRiddleCollection_handler in_dc ctx now s = (Inr (), s')"
  shows "(\<forall>c\<in>set (collections s'). \<not> (c_id c = dc_id in_dc \<and> c_userId c = u_id user))
       \<and> map r_id (riddles s') = map r_id (riddles s)
       \<and> (\<forall>i<length (riddles s).
            riddles s' ! i =
              (if r_collectionId (riddles s ! i) = Some (dc_id in_dc)
               then (riddles s ! i)\<lparr>r_collectionId := None, r_updatedAt := now\<rparr>
               else riddles s ! i))
       \<and> (\<forall>r\<in>set (riddles s'). r_collectionId r \<noteq> Some (dc_id in_dc))"
proof -
  note ok = deleteRiddleCollection_handler_success [OF requireUser_some [OF assms(1)] assms(2)]
  let ?mine = "\<lambda>r. r_collectionId r = Some (dc_id in_dc) \<and> r_userId r = u_id user"
  have gone: "\<forall>c\<in>set (collections s'). \<not> (c_id c = dc_id in_dc \<and> c_userId c = u_id user)"
    using ok(3) by simp
  have ids: "map r_id (riddles s') = map r_id (riddles s)"
    by (simp only: ok(2) detach_keeps_ids)
  have rows: "riddles s' ! i =
              (if r_collectionId (riddles s ! i) = Some (dc_id in_dc)
               then (riddles s ! i)\<lparr>r_collectionId := None, r_updatedAt := now\<rparr>
               else riddles s ! i)" if i: "i < length (riddles s)" for i
  proof (cases "r_collectionId (riddles s ! i) = Some (dc_id in_dc)")
    case False
    with i ok(2) show ?thesis by simp
  next
    case True
    have "r_userId (riddles s ! i) = u_id user"
    proof (rule ccontr)
      assume other: "r_userId (riddles s ! i) \<noteq> u_id user"
      with i ok(2) have "riddles s' ! i = riddles s ! i" by simp
      moreover from i ok(2) have "riddles s' ! i \<in> set (riddles s')" by simp
      ultimately show False using ok(4) True by auto
    qed
    with True i ok(2) show ?thesis by (simp add: detach_def)
  qed
  from rows have "\<forall>i<length (riddles s). riddles s' ! i =
              (if r_collectionId (riddles s ! i) = Some (dc_id in_dc)
               then (riddles s ! i)\<lparr>r_collectionId := None, r_updatedAt := now\<rparr>
               else riddles s ! i)" by blast
  with gone ids ok(4) show ?thesis by (intro conjI)
qed



theorem delete_collection_detaches_witness:
  "locals_user (signed_in alice) = Some alice
   \<and> fst (deleteRiddleCollection_handler \<lparr>dc_id = ''c1''\<rparr> (signed_in alice) 9 example_db) = Inr ()
   \<and> riddles (snd (deleteRiddleCollection_handler \<lparr>dc_id = ''c1''\<rparr> (signed_in alice) 9 example_db)) ! 0
       = piano\<lparr>r_collectionId := None, r_updatedAt := 9\<rparr>
   \<and> riddles (snd (deleteRiddleCollection_handler \<lparr>dc_id = ''c1''\<rparr> (signed_in alice) 9 example_db)) ! 1
       = echo
   \<and> collections
        (snd (deleteRiddleCollection_handler \<lparr>dc_id = ''c1''\<rparr> (signed_in alice) 9 example_db))
       = [wordplay]"
proof -
  let ?run = "deleteRiddleCollection_handler \<lparr>dc_id = ''c1''\<rparr> (signed_in alice) 9 example_db"
  have h1: "locals_user (signed_in alice) = Some alice" by simp
  have run: "fst ?run = Inr ()"
    by (simp add: deleteRiddleCollection_handler_def requireUser_def store_defs detach_def
        example_defs)
  then have h2: "?run = (Inr (), snd ?run)" by (simp add: prod_eq_iff)
  note inst = delete_collection_detaches [OF h1 h2]
  from inst have "riddles (snd ?run) ! 0 = piano\<lparr>r_collectionId := None, r_updatedAt := 9\<rparr>"
    by (simp add: piano_def)
  moreover from inst have "riddles (snd ?run) ! 1 = echo"
    by (simp add: echo_def)
  moreover have "collections (snd ?run) = [wordplay]"
    by (simp add: deleteRiddleCollection_handler_def requireUser_def store_defs detach_def
        example_defs)
  ultimately show ?thesis using h1 run by simp
qed

subsection \<open>Partial update\<close>

lemma update_riddles_Inr:
  assumes "update_riddles f p s = (Inr rows, s')"
  shows "rows = map f (filter p (riddles s))
       \<and> riddles s' = map (\<lambda>r. if p r then f r else r) (riddles s)
       \<and> collections s' = collections s
       \<and> (\<forall>r\<in>set (riddles s). p r \<and> r_collectionId (f r) \<noteq> r_collectionId r \<longrightarrow> resolves s (f r))"
  using assms by (auto simp: update_riddles_def list_ex_iff split: if_splits)

lemma update_riddles_Inl:
  assumes "update_riddles f p s = (Inl e, s')"
  shows "e = ConstraintError \<and> riddles s' = riddles s \<and> collections s' = collections s"
  using assms by (auto simp: update_riddles_def split: if_splits)

lemma check_collection_Inr:
  assumes "check_collection cid user s = (Inr u, s')"
  shows "riddles s' = riddles s \<and> collections s' = collections s
       \<and> (\<exists>c\<in>set (collections s). c_id c = cid \<and> c_userId c = u_id user)"
  using assms
  by (auto simp: check_collection_def select_collections_def filter_nil_iff split: if_splits)

lemma check_collection_Inl:
  assumes "check_collection cid user s = (Inl e, s')"
  shows "e = ActionError FORBIDDEN \<and> riddles s' = riddles s \<and> collections s' = collections s
       \<and> (\<forall>c\<in>set (collections s). \<not> (c_id c = cid \<and> c_userId c = u_id user))"
  using assms
  by (auto simp: check_collection_def select_collections_def filter_nil_iff split: if_splits)

lemma updateRiddle_handler_success:
  assumes "requireUser ctx = Inr user"
    and "updateRiddle_handler input ctx now s = (Inr row, s')"
  shows "filter (\<lambda>r. r_id r = ur_id input \<and> r_userId r = u_id user) (riddles s) \<noteq> []"
    and "riddles s' =
           map (\<lambda>r. if r_id r = ur_id input \<and> r_userId r = u_id user
                    then riddle_updateData input now r else r) (riddles s)"
    and "row = first_row (map (riddle_updateData input now)
                 (filter (\<lambda>r. r_id r = ur_id input \<and> r_userId r = u_id user) (riddles s)))"
    and "collections s' = collections s"
  using assms
  by (auto simp: updateRiddle_handler_def select_riddles_def Let_def
      split: if_splits option.splits prod.splits sum.splits
      dest!: update_riddles_Inr check_collection_Inr)


lemma first_row_map_filter:
  "filter P xs \<noteq> [] \<Longrightarrow>
     \<exists>i<length xs. P (xs ! i) \<and> first_row (map f (filter P xs)) = Some (f (xs ! i))"
proof (induction xs)
  case Nil
  then show ?case by simp
next
  case (Cons a xs)
  show ?case
  proof (cases "P a")
    case True
    then have "P ((a # xs) ! 0) \<and> first_row (map f (filter P (a # xs))) = Some (f ((a # xs) ! 0))"
      by (simp add: first_row_def)
    then show ?thesis by blast
  next
    case False
    with Cons.prems have "filter P xs \<noteq> []" by simp
    from Cons.IH [OF this] obtain i
      where "i < length xs" "P (xs ! i)" "first_row (map f (filter P xs)) = Some (f (xs ! i))"
      by blast
    with False
    have "Suc i < length (a # xs) \<and> P ((a # xs) ! Suc i)
          \<and> first_row (map f (filter P (a # xs))) = Some (f ((a # xs) ! Suc i))"
      by simp
    then show ?thesis by blast
  qed
qed

lemma riddle_updateData_frame: "riddle_frame input now r (riddle_updateData input now r)"
  by (simp add: riddle_frame_def supplied_def column_of_def riddle_updateData_def
      split: option.splits nullable.splits)

lemma collection_updateData_frame:
  "collection_frame input now c (collection_updateData input now c)"
  by (simp add: collection_frame_def supplied_def collection_updateData_def split: option.splits)

lemma collection_updateData_cleared_frame:
  "uc_isDefault input \<noteq> None \<Longrightarrow>
     collection_frame input now c (collection_updateData input now (clear_default now' c))"
  by (auto simp: collection_frame_def supplied_def collection_updateData_def clear_default_def
      split: option.splits)

lemma updateRiddle_frame:
  assumes "locals_user ctx = Some user"
    and "updateRiddle_handler input ctx now s = (Inr row, s')"
  shows "length (riddles s') = length (riddles s)
       \<and> (\<exists>i<length (riddles s).
             r_id (riddles s ! i) = ur_id input \<and> r_userId (riddles s ! i) = u_id user
             \<and> row = Some (riddles s' ! i))
       \<and> (\<forall>i<length (riddles s).
             if r_id (riddles s ! i) = ur_id input \<and> r_userId (riddles s ! i) = u_id user
             then riddle_frame input now (riddles s ! i) (riddles s' ! i)
             else riddles s' ! i = riddles s ! i)"
proof -
  note ok = updateRiddle_handler_success [OF requireUser_some [OF assms(1)] assms(2)]
  let ?target = "\<lambda>r. r_id r = ur_id input \<and> r_userId r = u_id user"
  from ok(2) have len: "length (riddles s') = length (riddles s)" by simp
  from first_row_map_filter [OF ok(1), of "riddle_updateData input now"] ok(3)
  obtain i where i: "i < length (riddles s)" "?target (riddles s ! i)"
    "row = Some (riddle_updateData input now (riddles s ! i))"
    by auto
  with ok(2) have "row = Some (riddles s' ! i)" by simp
  with i have ex: "\<exists>i<length (riddles s). ?target (riddles s ! i) \<and> row = Some (riddles s' ! i)"
    by blast
  have "\<forall>i<length (riddles s).
          if ?target (riddles s ! i)
          then riddle_frame input now (riddles s ! i) (riddles s' ! i)
          else riddles s' ! i = riddles s ! i"
    using ok(2) by (simp add: riddle_updateData_frame)
  with len ex show ?thesis by simp
qed

lemma updateRiddleCollection_frame:
  assumes "locals_user ctx = Some user"
    and "updateRiddleCollection_handler input ctx now s = (Inr row, s')"
  shows "length (collections s') = length (collections s)
       \<and> (\<exists>i<length (collections s).
             c_id (collections s ! i) = uc_id input \<and> c_userId (collections s ! i) = u_id user
             \<and> row = Some (collections s' ! i))
       \<and> (\<forall>i<length (collections s).
             c_id (collections s ! i) = uc_id input \<and> c_userId (collections s ! i) = u_id user
             \<longrightarrow> collection_frame input now (collections s ! i) (collections s' ! i))"
proof -
  note ok = updateRiddleCollection_handler_success [OF requireUser_some [OF assms(1)] assms(2)]
  let ?target = "\<lambda>c. c_id c = uc_id input \<and> c_userId c = u_id user"
  let ?upd = "collection_updateData input now"
  let ?clr = "\<lambda>c. if c_userId c = u_id user then clear_default now c else c"
  show ?thesis
  proof (cases "truthy_bool (uc_isDefault input)")
    case False
    with ok have cs: "collections s' = map (\<lambda>c. if ?target c then ?upd c else c) (collections s)"
      and row: "row = first_row (map ?upd (filter ?target (collections s)))"
      by simp_all
    from first_row_map_filter [OF ok(1), of ?upd] row
    obtain i where i: "i < length (collections s)" "?target (collections s ! i)"
      "row = Some (?upd (collections s ! i))"
      by auto
    with cs have "row = Some (collections s' ! i)" by simp
    with i have ex: "\<exists>i<length (collections s). ?target (collections s ! i)
        \<and> row = Some (collections s' ! i)"
      by blast
    have "\<forall>i<length (collections s). ?target (collections s ! i)
            \<longrightarrow> collection_frame input now (collections s ! i) (collections s' ! i)"
      using cs by (simp add: collection_updateData_frame)
    with cs ex show ?thesis by simp
  next
    case True
    then have supplied: "uc_isDefault input \<noteq> None"
      by (auto simp: truthy_bool_def split: option.splits)
    from True ok
    have cs: "collections s' = map (\<lambda>c. if ?target c then ?upd (?clr c) else ?clr c) (collections s)"
      and row: "row = first_row (map ?upd (filter ?target (map ?clr (collections s))))"
      by (simp_all add: o_def if_distrib [of "\<lambda>c. c_id c"] cong: if_cong)
    have "filter ?target (map ?clr (collections s)) = map ?clr (filter ?target (collections s))"
      by (rule filter_target_cleared)
    with row have row': "row = first_row (map (\<lambda>c. ?upd (?clr c)) (filter ?target (collections s)))"
      by (simp add: o_def)
    from first_row_map_filter [OF ok(1), of "\<lambda>c. ?upd (?clr c)"] row'
    obtain i where i: "i < length (collections s)" "?target (collections s ! i)"
      "row = Some (?upd (?clr (collections s ! i)))"
      by auto
    with cs have "row = Some (collections s' ! i)" by simp
    with i have ex: "\<exists>i<length (collections s). ?target (collections s ! i)
        \<and> row = Some (collections s' ! i)"
      by blast
    have "\<forall>i<length (collections s). ?target (collections s ! i)
            \<longrightarrow> collection_frame input now (collections s ! i) (collections s' ! i)"
      using cs supplied by (simp add: collection_updateData_cleared_frame)
    with cs ex show ?thesis by simp
  qed
qed


text \<open>
  Claim C6. After a successful \<^verbatim>\<open>updateRiddle\<close> the riddles table has the same length;
  every row with the input's id and the caller as owner satisfies \<open>riddle_frame\<close> against
  its previous value (fields not supplied are kept, supplied fields take the supplied
  value, \<open>updatedAt\<close> is the time of the call, and \<open>id\<close>, \<open>userId\<close>, \<open>createdAt\<close> are
  kept); every other riddle is untouched; and the returned row is such a target row as it
  is afterwards. After a successful \<^verbatim>\<open>updateRiddleCollection\<close> the same holds of the
  target rows of the collections table with \<open>collection_frame\<close>.
\<close>

theorem partial_update_frame:
  assumes "locals_user ctx = Some user"
  shows "(updateRiddle_handler in_ur ctx now s = (Inr row_r, s_r) \<longrightarrow>
            length (riddles s_r) = length (riddles s)
          \<and> (\<exists>i<length (riddles s).
                r_id (riddles s ! i) = ur_id in_ur \<and> r_userId (riddles s ! i) = u_id user
                \<and> row_r = Some (riddles s_r ! i))
          \<and> (\<forall>i<length (riddles s).
                if r_id (riddles s ! i) = ur_id in_ur \<and> r_userId (riddles s ! i) = u_id user
                then riddle_frame in_ur now (riddles s ! i) (riddles s_r ! i)
                else riddles s_r ! i = riddles s ! i))
       \<and> (updateRiddleCollection_handler in_uc ctx now s = (Inr row_c, s_c) \<longrightarrow>
            length (collections s_c) = length (collections s)
          \<and> (\<exists>i<length (collections s).
                c_id (collections s ! i) = uc_id in_uc \<and> c_userId (collections s ! i) = u_id user
                \<and> row_c = Some (collections s_c ! i))
          \<and> (\<forall>i<length (collections s).
                c_id (collections s ! i) = uc_id in_uc \<and> c_userId (collections s ! i) = u_id user
                \<longrightarrow> collection_frame in_uc now (collections s ! i) (collections s_c ! i)))"
    (is "(?run_r \<longrightarrow> ?frame_r) \<and> (?run_c \<longrightarrow> ?frame_c)")
proof (rule conjI; rule impI)
  assume ?run_r
  then show ?frame_r by (rule updateRiddle_frame [OF assms])
next
  assume ?run_c
  then show ?frame_c by (rule updateRiddleCollection_frame [OF assms])
qed

theorem partial_update_frame_witness:
  "locals_user (signed_in alice) = Some alice
   \<and> fst (updateRiddle_handler
            \<lparr>ur_id = ''r1'', ur_question = None, ur_answer = None, ur_hint = Some ''Music'',
             ur_difficulty = None, ur_category = None, ur_language = None,
             ur_collectionId = None, ur_isFavorite = None, ur_isPublic = None\<rparr>
            (signed_in alice) 9 example_db)
       = Inr (Some (piano\<lparr>r_hint := Some ''Music'', r_updatedAt := 9\<rparr>))
   \<and> riddle_frame
        \<lparr>ur_id = ''r1'', ur_question = None, ur_answer = None, ur_hint = Some ''Music'',
         ur_difficulty = None, ur_category = None, ur_language = None,
         ur_collectionId = None, ur_isFavorite = None, ur_isPublic = None\<rparr> 9 piano
        (riddles (snd (updateRiddle_handler
            \<lparr>ur_id = ''r1'', ur_question = None, ur_answer = None, ur_hint = Some ''Music'',
             ur_difficulty = None, ur_category = None, ur_language = None,
             ur_collectionId = None, ur_isFavorite = None, ur_isPublic = None\<rparr>
            (signed_in alice) 9 example_db)) ! 0)
   \<and> riddles (snd (updateRiddle_handler
            \<lparr>ur_id = ''r1'', ur_question = None, ur_answer = None, ur_hint = Some ''Music'',
             ur_difficulty = None, ur_category = None, ur_language = None,
             ur_collectionId = None, ur_isFavorite = None, ur_isPublic = None\<rparr>
            (signed_in alice) 9 example_db)) ! 1 = echo
   \<and> fst (updateRiddleCollection_handler
            \<lparr>uc_id = ''c1'', uc_name = Some ''Brain teasers'', uc_description = None,
             uc_icon = None, uc_isDefault = None\<rparr> (signed_in alice) 9 example_db)
       = Inr (Some (logic\<lparr>c_name := ''Brain teasers'', c_updatedAt := 9\<rparr>))
   \<and> collection_frame
        \<lparr>uc_id = ''c1'', uc_name = Some ''Brain teasers'', uc_description = None,
         uc_icon = None, uc_isDefault = None\<rparr> 9 logic
        (collections (snd (updateRiddleCollection_handler
            \<lparr>uc_id = ''c1'', uc_name = Some ''Brain teasers'', uc_description = None,
             uc_icon = None, uc_isDefault = None\<rparr> (signed_in alice) 9 example_db)) ! 0)"
proof -
  let ?in_r = "\<lparr>ur_id = ''r1'', ur_question = None, ur_answer = None, ur_hint = Some ''Music'',
             ur_difficulty = None, ur_category = None, ur_language = None,
             ur_collectionId = None, ur_isFavorite = None, ur_isPublic = None\<rparr>"
  let ?in_c = "\<lparr>uc_id = ''c1'', uc_name = Some ''Brain teasers'', uc_description = None,
             uc_icon = None, uc_isDefault = None\<rparr>"
  let ?run_r = "updateRiddle_handler ?in_r (signed_in alice) 9 example_db"
  let ?run_c = "updateRiddleCollection_handler ?in_c (signed_in alice) 9 example_db"
  have h: "locals_user (signed_in alice) = Some alice" by simp
  have r: "fst ?run_r = Inr (Some (piano\<lparr>r_hint := Some ''Music'', r_updatedAt := 9\<rparr>))"
    by (simp add: updateRiddle_handler_def requireUser_def collection_to_check_def
        riddle_updateData_def store_defs example_defs)
  have c: "fst ?run_c = Inr (Some (logic\<lparr>c_name := ''Brain teasers'', c_updatedAt := 9\<rparr>))"
    by (simp add: updateRiddleCollection_handler_def requireUser_def truthy_bool_def
        collection_updateData_def store_defs example_defs)
  from r have eq_r: "?run_r = (Inr (Some (piano\<lparr>r_hint := Some ''Music'', r_updatedAt := 9\<rparr>)),
      snd ?run_r)"
    by (simp add: prod_eq_iff)
  from c have eq_c: "?run_c = (Inr (Some (logic\<lparr>c_name := ''Brain teasers'', c_updatedAt := 9\<rparr>)),
      snd ?run_c)"
    by (simp add: prod_eq_iff)
  note inst = partial_update_frame [OF h, where in_ur = ?in_r and now = 9 and s = example_db
      and row_r = "Some (piano\<lparr>r_hint := Some ''Music'', r_updatedAt := 9\<rparr>)"
      and s_r = "snd ?run_r" and in_uc = ?in_c
      and row_c = "Some (logic\<lparr>c_name := ''Brain teasers'', c_updatedAt := 9\<rparr>)"
      and s_c = "snd ?run_c"]
  from inst eq_r
  have all_r: "\<forall>i<length (riddles example_db).
      if r_id (riddles example_db ! i) = ur_id ?in_r \<and> r_userId (riddles example_db ! i) = u_id alice
      then riddle_frame ?in_r 9 (riddles example_db ! i) (riddles (snd ?run_r) ! i)
      else riddles (snd ?run_r) ! i = riddles example_db ! i"
    by blast
  from inst eq_c
  have all_c: "\<forall>i<length (collections example_db).
      c_id (collections example_db ! i) = uc_id ?in_c \<and> c_userId (collections example_db ! i) = u_id alice
      \<longrightarrow> collection_frame ?in_c 9 (collections example_db ! i) (collections (snd ?run_c) ! i)"
    by blast
  from all_r [rule_format, of 0] have "riddle_frame ?in_r 9 piano (riddles (snd ?run_r) ! 0)"
    by (simp add: example_defs)
  moreover from all_r [rule_format, of 1] have "riddles (snd ?run_r) ! 1 = echo"
    by (simp add: example_defs)
  moreover from all_c [rule_format, of 0]
  have "collection_frame ?in_c 9 logic (collections (snd ?run_c) ! 0)"
    by (simp add: example_defs)
  ultimately show ?thesis using h r c by simp
qed

subsection \<open>Validation comes first\<close>

lemma defineAction_reject:
  "schema raw = None \<Longrightarrow> defineAction schema handler raw s = (Inl ActionInputError, s)"
  by (simp add: defineAction_def)

lemma z_min_empty [simp]:
  "0 < n \<Longrightarrow> z_min n z_string (JStr []) = None"
  "0 < n \<Longrightarrow> z_optional (z_min n z_string) (JStr []) = None"
  by (simp_all add: z_min_def z_string_def z_optional_def)

lemma z_difficulty_other:
  "d \<notin> {''easy'', ''medium'', ''hard''} \<Longrightarrow> z_optional z_difficulty (JStr d) = None"
  by (simp add: z_optional_def z_difficulty_def z_enum_def)

lemma z_page_small: "q < 1 \<Longrightarrow> z_page (JNum q) = None"
proof -
  assume "q < 1"
  then have "of_int \<lfloor>q\<rfloor> = q \<Longrightarrow> \<not> 0 < \<lfloor>q\<rfloor>" by linarith
  then show ?thesis
    by (auto simp: z_page_def z_default_def z_positive_def z_number_int_def)
qed

lemma z_pageSize_out: "q < 1 \<or> 100 < q \<Longrightarrow> z_pageSize (JNum q) = None"
proof -
  assume "q < 1 \<or> 100 < q"
  then have "of_int \<lfloor>q\<rfloor> = q \<Longrightarrow> \<not> (0 < \<lfloor>q\<rfloor> \<and> \<lfloor>q\<rfloor> \<le> 100)" by linarith
  then show ?thesis
    by (auto simp: z_pageSize_def z_default_def z_max_def z_positive_def z_number_int_def)
qed

lemma z_defaults [simp]: "z_page JUndefined = Some 1" "z_pageSize JUndefined = Some 20"
  by (simp_all add: z_page_def z_pageSize_def z_default_def)

lemma createRiddleCollection_schema_None:
  "z_min 1 z_string (raw ''name'') = None \<Longrightarrow> createRiddleCollection_schema raw = None"
  by (simp add: createRiddleCollection_schema_def)

lemma updateRiddleCollection_schema_None:
  "z_min 1 z_string (raw ''id'') = None \<or> z_optional (z_min 1 z_string) (raw ''name'') = None
   \<Longrightarrow> updateRiddleCollection_schema raw = None"
  by (auto simp: updateRiddleCollection_schema_def bind_eq_None_conv)

lemma deleteRiddleCollection_schema_None:
  "z_min 1 z_string (raw ''id'') = None \<Longrightarrow> deleteRiddleCollection_schema raw = None"
  by (simp add: deleteRiddleCollection_schema_def)

lemma createRiddle_schema_None:
  "z_min 1 z_string (raw ''question'') = None \<or> z_min 1 z_string (raw ''answer'') = None
   \<or> z_optional z_difficulty (raw ''difficulty'') = None
   \<Longrightarrow> createRiddle_schema raw = None"
  by (auto simp: createRiddle_schema_def bind_eq_None_conv)

lemma updateRiddle_schema_None:
  "z_min 1 z_string (raw ''id'') = None
   \<or> z_optional (z_min 1 z_string) (raw ''question'') = None
   \<or> z_optional (z_min 1 z_string) (raw ''answer'') = None
   \<or> z_optional z_difficulty (raw ''difficulty'') = None
   \<Longrightarrow> updateRiddle_schema raw = None"
  by (auto simp: updateRiddle_schema_def bind_eq_None_conv)

lemma deleteRiddle_schema_None:
  "z_min 1 z_string (raw ''id'') = None \<Longrightarrow> deleteRiddle_schema raw = None"
  by (simp add: deleteRiddle_schema_def)

lemma listMyCollections_schema_None:
  "z_page (raw ''page'') = None \<or> z_pageSize (raw ''pageSize'') = None
   \<Longrightarrow> listMyCollections_schema raw = None"
  by (auto simp: listMyCollections_schema_def bind_eq_None_conv)

lemma listMyRiddles_schema_None:
  "z_optional z_difficulty (raw ''difficulty'') = None
   \<or> z_page (raw ''page'') = None \<or> z_pageSize (raw ''pageSize'') = None
   \<Longrightarrow> listMyRiddles_schema raw = None"
  by (auto simp: listMyRiddles_schema_def bind_eq_None_conv)

lemma listMyCollections_schema_Some:
  "listMyCollections_schema raw = Some input \<Longrightarrow>
     z_page (raw ''page'') = Some (lc_page input) \<and> z_pageSize (raw ''pageSize'') = Some (lc_pageSize input)"
  by (auto simp: listMyCollections_schema_def bind_eq_Some_conv)

lemma listMyRiddles_schema_Some:
  "listMyRiddles_schema raw = Some input \<Longrightarrow>
     z_page (raw ''page'') = Some (lr_page input) \<and> z_pageSize (raw ''pageSize'') = Some (lr_pageSize input)"
  by (auto simp: listMyRiddles_schema_def bind_eq_Some_conv)


lemmas action_defs =
  createRiddleCollection_def updateRiddleCollection_def deleteRiddleCollection_def
  createRiddle_def updateRiddle_def deleteRiddle_def listMyCollections_def listMyRiddles_def

lemmas schema_None =
  createRiddleCollection_schema_None updateRiddleCollection_schema_None
  deleteRiddleCollection_schema_None createRiddle_schema_None updateRiddle_schema_None
  deleteRiddle_schema_None listMyCollections_schema_None listMyRiddles_schema_None

lemma action_rejects:
  "createRiddleCollection_schema raw = None \<Longrightarrow>
     createRiddleCollection raw ctx now uuid s = (Inl ActionInputError, s)"
  "updateRiddleCollection_schema raw = None \<Longrightarrow>
     updateRiddleCollection raw ctx now s = (Inl ActionInputError, s)"
  "deleteRiddleCollection_schema raw = None \<Longrightarrow>
     deleteRiddleCollection raw ctx now s = (Inl ActionInputError, s)"
  "createRiddle_schema raw = None \<Longrightarrow>
     createRiddle raw ctx now uuid s = (Inl ActionInputError, s)"
  "updateRiddle_schema raw = None \<Longrightarrow>
     updateRiddle raw ctx now s = (Inl ActionInputError, s)"
  "deleteRiddle_schema raw = None \<Longrightarrow>
     deleteRiddle raw ctx s = (Inl ActionInputError, s)"
  "listMyCollections_schema raw = None \<Longrightarrow>
     listMyCollections raw ctx s = (Inl ActionInputError, s)"
  "listMyRiddles_schema raw = None \<Longrightarrow>
     listMyRiddles raw ctx s = (Inl ActionInputError, s)"
  by (simp_all add: action_defs defineAction_def)

lemma z_page_one [simp]: "z_page (JNum 1) = Some 1"
  by (simp add: z_page_def z_default_def z_positive_def z_number_int_def)

lemma z_pageSize_twenty [simp]: "z_pageSize (JNum 20) = Some 20"
  by (simp add: z_pageSize_def z_default_def z_max_def z_positive_def z_number_int_def)

lemma z_optional_undefined [simp]: "z_optional z JUndefined = Some None"
  by (simp add: z_optional_def)

lemma page_omitted:
  assumes "raw ''page'' = JUndefined"
  shows "listMyCollections_schema raw = listMyCollections_schema (raw(''page'' := JNum 1))"
    and "listMyRiddles_schema raw = listMyRiddles_schema (raw(''page'' := JNum 1))"
  using assms by (simp_all add: listMyCollections_schema_def listMyRiddles_schema_def)

lemma pageSize_omitted:
  assumes "raw ''pageSize'' = JUndefined"
  shows "listMyCollections_schema raw = listMyCollections_schema (raw(''pageSize'' := JNum 20))"
    and "listMyRiddles_schema raw = listMyRiddles_schema (raw(''pageSize'' := JNum 20))"
  using assms by (simp_all add: listMyCollections_schema_def listMyRiddles_schema_def)

lemma listing_defaults_accepted:
  assumes "raw ''page'' = JUndefined" and "raw ''pageSize'' = JUndefined"
  shows "listMyCollections_schema raw = Some \<lparr>lc_page = 1, lc_pageSize = 20\<rparr>"
    and "listMyCollections raw ctx s
         = listMyCollections_handler \<lparr>lc_page = 1, lc_pageSize = 20\<rparr> ctx s"
    and "raw ''collectionId'' = JUndefined \<and> raw ''favoritesOnly'' = JUndefined
         \<and> raw ''difficulty'' = JUndefined \<and> raw ''category'' = JUndefined \<Longrightarrow>
         listMyRiddles_schema raw
         = Some \<lparr>lr_collectionId = None, lr_favoritesOnly = None, lr_difficulty = None,
                 lr_category = None, lr_page = 1, lr_pageSize = 20\<rparr>"
    and "raw ''collectionId'' = JUndefined \<and> raw ''favoritesOnly'' = JUndefined
         \<and> raw ''difficulty'' = JUndefined \<and> raw ''category'' = JUndefined \<Longrightarrow>
         listMyRiddles raw ctx s
         = listMyRiddles_handler
             \<lparr>lr_collectionId = None, lr_favoritesOnly = None, lr_difficulty = None,
              lr_category = None, lr_page = 1, lr_pageSize = 20\<rparr> ctx s"
  using assms
  by (simp_all add: listMyCollections_schema_def listMyRiddles_schema_def
      listMyCollections_def listMyRiddles_def defineAction_def)

text \<open>
  Claim C8. Whatever the request context and the store: a raw input whose \<open>name\<close> is the
  empty string is rejected by both collection actions that take a name; an empty \<open>id\<close>
  by the four actions that take an id; an empty \<open>question\<close> or \<open>answer\<close> by both riddle
  actions that take them; a \<open>difficulty\<close> other than easy, medium, hard by the three
  actions that take one; a \<open>page\<close> below 1 and a \<open>pageSize\<close> below 1 or above 100 by
  both listing actions. Rejected means: the result is the input error and the store is
  returned as it was, statement log included, so neither \<^verbatim>\<open>requireUser\<close> nor any statement
  ran. An omitted \<open>page\<close> parses exactly as \<open>page = 1\<close> does and an omitted \<open>pageSize\<close>
  exactly as \<open>pageSize = 20\<close> does, so whatever is accepted then has page 1 and page
  size 20; and an input that omits both (and, for \<^verbatim>\<open>listMyRiddles\<close>, every filter) is
  accepted, and the handler runs on page 1 with page size 20.
\<close>

theorem validation_precedes_handler:
  "(raw ''name'' = JStr [] \<longrightarrow>
      createRiddleCollection raw ctx now uuid s = (Inl ActionInputError, s)
      \<and> updateRiddleCollection raw ctx now s = (Inl ActionInputError, s))
   \<and> (raw ''id'' = JStr [] \<longrightarrow>
      updateRiddleCollection raw ctx now s = (Inl ActionInputError, s)
      \<and> deleteRiddleCollection raw ctx now s = (Inl ActionInputError, s)
      \<and> updateRiddle raw ctx now s = (Inl ActionInputError, s)
      \<and> deleteRiddle raw ctx s = (Inl ActionInputError, s))
   \<and> (raw ''question'' = JStr [] \<or> raw ''answer'' = JStr [] \<longrightarrow>
      createRiddle raw ctx now uuid s = (Inl ActionInputError, s)
      \<and> updateRiddle raw ctx now s = (Inl ActionInputError, s))
   \<and> (raw ''difficulty'' = JStr d \<and> d \<notin> {''easy'', ''medium'', ''hard''} \<longrightarrow>
      createRiddle raw ctx now uuid s = (Inl ActionInputError, s)
      \<and> updateRiddle raw ctx now s = (Inl ActionInputError, s)
      \<and> listMyRiddles raw ctx s = (Inl ActionInputError, s))
   \<and> (raw ''page'' = JNum p \<and> p < 1 \<longrightarrow>
      listMyCollections raw ctx s = (Inl ActionInputError, s)
      \<and> listMyRiddles raw ctx s = (Inl ActionInputError, s))
   \<and> (raw ''pageSize'' = JNum n \<and> (n < 1 \<or> 100 < n) \<longrightarrow>
      listMyCollections raw ctx s = (Inl ActionInputError, s)
      \<and> listMyRiddles raw ctx s = (Inl ActionInputError, s))
   \<and> (raw ''page'' = JUndefined \<longrightarrow>
      listMyCollections_schema raw = listMyCollections_schema (raw(''page'' := JNum 1))
      \<and> listMyRiddles_schema raw = listMyRiddles_schema (raw(''page'' := JNum 1))
      \<and> (listMyCollections_schema raw = Some in_lc \<longrightarrow> lc_page in_lc = 1)
      \<and> (listMyRiddles_schema raw = Some in_lr \<longrightarrow> lr_page in_lr = 1))
   \<and> (raw ''pageSize'' = JUndefined \<longrightarrow>
      listMyCollections_schema raw = listMyCollections_schema (raw(''pageSize'' := JNum 20))
      \<and> listMyRiddles_schema raw = listMyRiddles_schema (raw(''pageSize'' := JNum 20))
      \<and> (listMyCollections_schema raw = Some in_lc \<longrightarrow> lc_pageSize in_lc = 20)
      \<and> (listMyRiddles_schema raw = Some in_lr \<longrightarrow> lr_pageSize in_lr = 20))
   \<and> (raw ''page'' = JUndefined \<and> raw ''pageSize'' = JUndefined \<longrightarrow>
      listMyCollections_schema raw = Some \<lparr>lc_page = 1, lc_pageSize = 20\<rparr>
      \<and> listMyCollections raw ctx s
          = listMyCollections_handler \<lparr>lc_page = 1, lc_pageSize = 20\<rparr> ctx s
      \<and> (raw ''collectionId'' = JUndefined \<and> raw ''favoritesOnly'' = JUndefined
          \<and> raw ''difficulty'' = JUndefined \<and> raw ''category'' = JUndefined \<longrightarrow>
          listMyRiddles_schema raw
            = Some \<lparr>lr_collectionId = None, lr_favoritesOnly = None, lr_difficulty = None,
                    lr_category = None, lr_page = 1, lr_pageSize = 20\<rparr>
          \<and> listMyRiddles raw ctx s
            = listMyRiddles_handler
                \<lparr>lr_collectionId = None, lr_favoritesOnly = None, lr_difficulty = None,
                 lr_category = None, lr_page = 1, lr_pageSize = 20\<rparr> ctx s))"
  (is "?name \<and> ?id \<and> ?qa \<and> ?difficulty \<and> ?page \<and> ?pageSize \<and> ?page1 \<and> ?pageSize20
       \<and> ?accepted")
proof -
  have ?name
    by (intro conjI impI; rule action_rejects; rule schema_None; simp)
  moreover have ?id
    by (intro conjI impI; rule action_rejects; rule schema_None; simp)
  moreover have ?qa
    by (intro conjI impI; rule action_rejects; rule schema_None; auto)
  moreover have ?difficulty
    by (intro conjI impI; rule action_rejects; rule schema_None; simp add: z_difficulty_other)
  moreover have ?page
    by (intro conjI impI; rule action_rejects; rule schema_None; simp add: z_page_small)
  moreover have ?pageSize
    by (intro conjI impI; rule action_rejects; rule schema_None; simp add: z_pageSize_out)
  moreover have ?page1
  proof
    assume omitted: "raw ''page'' = JUndefined"
    have "listMyCollections_schema raw = Some in_lc \<longrightarrow> lc_page in_lc = 1"
      and "listMyRiddles_schema raw = Some in_lr \<longrightarrow> lr_page in_lr = 1"
      using omitted by (auto dest!: listMyCollections_schema_Some listMyRiddles_schema_Some)
    with page_omitted [where raw = raw, OF omitted]
    show "listMyCollections_schema raw = listMyCollections_schema (raw(''page'' := JNum 1))
      \<and> listMyRiddles_schema raw = listMyRiddles_schema (raw(''page'' := JNum 1))
      \<and> (listMyCollections_schema raw = Some in_lc \<longrightarrow> lc_page in_lc = 1)
      \<and> (listMyRiddles_schema raw = Some in_lr \<longrightarrow> lr_page in_lr = 1)"
      by (intro conjI)
  qed
  moreover have ?pageSize20
  proof
    assume omitted: "raw ''pageSize'' = JUndefined"
    have "listMyCollections_schema raw = Some in_lc \<longrightarrow> lc_pageSize in_lc = 20"
      and "listMyRiddles_schema raw = Some in_lr \<longrightarrow> lr_pageSize in_lr = 20"
      using omitted by (auto dest!: listMyCollections_schema_Some listMyRiddles_schema_Some)
    with pageSize_omitted [where raw = raw, OF omitted]
    show "listMyCollections_schema raw = listMyCollections_schema (raw(''pageSize'' := JNum 20))
      \<and> listMyRiddles_schema raw = listMyRiddles_schema (raw(''pageSize'' := JNum 20))
      \<and> (listMyCollections_schema raw = Some in_lc \<longrightarrow> lc_pageSize in_lc = 20)
      \<and> (listMyRiddles_schema raw = Some in_lr \<longrightarrow> lr_pageSize in_lr = 20)"
      by (intro conjI)
  qed
  moreover have ?accepted
  proof
    assume "raw ''page'' = JUndefined \<and> raw ''pageSize'' = JUndefined"
    then have omitted: "raw ''page'' = JUndefined" "raw ''pageSize'' = JUndefined"
      by simp_all
    from listing_defaults_accepted(1,2) [where raw = raw, OF omitted]
      listing_defaults_accepted(3,4) [where raw = raw, OF omitted]
    show "listMyCollections_schema raw = Some \<lparr>lc_page = 1, lc_pageSize = 20\<rparr>
      \<and> listMyCollections raw ctx s
          = listMyCollections_handler \<lparr>lc_page = 1, lc_pageSize = 20\<rparr> ctx s
      \<and> (raw ''collectionId'' = JUndefined \<and> raw ''favoritesOnly'' = JUndefined
          \<and> raw ''difficulty'' = JUndefined \<and> raw ''category'' = JUndefined \<longrightarrow>
          listMyRiddles_schema raw
            = Some \<lparr>lr_collectionId = None, lr_favoritesOnly = None, lr_difficulty = None,
                    lr_category = None, lr_page = 1, lr_pageSize = 20\<rparr>
          \<and> listMyRiddles raw ctx s
            = listMyRiddles_handler
                \<lparr>lr_collectionId = None, lr_favoritesOnly = None, lr_difficulty = None,
                 lr_category = None, lr_page = 1, lr_pageSize = 20\<rparr> ctx s)"
      by blast
  qed
  ultimately show ?thesis by (intro conjI)
qed

theorem validation_precedes_handler_witness:
  "createRiddleCollection (no_fields(''name'' := JStr [])) (signed_in alice) 9 ''c3'' example_db
     = (Inl ActionInputError, example_db)
   \<and> deleteRiddle (no_fields(''id'' := JStr [])) (signed_in alice) example_db
     = (Inl ActionInputError, example_db)
   \<and> createRiddle (no_fields(''question'' := JStr ''Q'', ''answer'' := JStr []))
        (signed_in alice) 9 ''r3'' example_db
     = (Inl ActionInputError, example_db)
   \<and> listMyRiddles (no_fields(''difficulty'' := JStr ''extreme'')) (signed_in alice) example_db
     = (Inl ActionInputError, example_db)
   \<and> listMyCollections (no_fields(''page'' := JNum 0)) (signed_in alice) example_db
     = (Inl ActionInputError, example_db)
   \<and> listMyRiddles (no_fields(''pageSize'' := JNum 101)) (signed_in alice) example_db
     = (Inl ActionInputError, example_db)
   \<and> listMyCollections_schema no_fields = Some \<lparr>lc_page = 1, lc_pageSize = 20\<rparr>
   \<and> listMyRiddles_schema no_fields
     = Some \<lparr>lr_collectionId = None, lr_favoritesOnly = None, lr_difficulty = None,
             lr_category = None, lr_page = 1, lr_pageSize = 20\<rparr>
   \<and> listMyRiddles_schema (no_fields(''category'' := JStr ''music'', ''pageSize'' := JNum 50))
     = Some \<lparr>lr_collectionId = None, lr_favoritesOnly = None, lr_difficulty = None,
             lr_category = Some ''music'', lr_page = 1, lr_pageSize = 50\<rparr>
   \<and> listMyCollections_schema (no_fields(''page'' := JNum 3))
     = Some \<lparr>lc_page = 3, lc_pageSize = 20\<rparr>
   \<and> fst (listMyRiddles no_fields (signed_in alice) example_db)
     = Inr \<lparr>items = [piano, echo], total = 2\<rparr>"
proof -
  have undefined: "no_fields k = JUndefined" for k
    by (simp add: no_fields_def)
  from validation_precedes_handler [where raw = "no_fields(''name'' := JStr [])"]
  have 1: "createRiddleCollection (no_fields(''name'' := JStr [])) (signed_in alice) 9 ''c3''
             example_db = (Inl ActionInputError, example_db)"
    by simp
  from validation_precedes_handler [where raw = "no_fields(''id'' := JStr [])"]
  have 2: "deleteRiddle (no_fields(''id'' := JStr [])) (signed_in alice) example_db
             = (Inl ActionInputError, example_db)"
    by simp
  from validation_precedes_handler
    [where raw = "no_fields(''question'' := JStr ''Q'', ''answer'' := JStr [])"]
  have 3: "createRiddle (no_fields(''question'' := JStr ''Q'', ''answer'' := JStr []))
             (signed_in alice) 9 ''r3'' example_db = (Inl ActionInputError, example_db)"
    by simp
  from validation_precedes_handler
    [where raw = "no_fields(''difficulty'' := JStr ''extreme'')" and d = "''extreme''"]
  have 4: "listMyRiddles (no_fields(''difficulty'' := JStr ''extreme'')) (signed_in alice)
             example_db = (Inl ActionInputError, example_db)"
    by simp
  from validation_precedes_handler [where raw = "no_fields(''page'' := JNum 0)" and p = 0]
  have 5: "listMyCollections (no_fields(''page'' := JNum 0)) (signed_in alice) example_db
             = (Inl ActionInputError, example_db)"
    by simp
  from validation_precedes_handler
    [where raw = "no_fields(''pageSize'' := JNum 101)" and n = 101]
  have 6: "listMyRiddles (no_fields(''pageSize'' := JNum 101)) (signed_in alice) example_db
             = (Inl ActionInputError, example_db)"
    by simp
  note none = validation_precedes_handler
    [where raw = no_fields and ctx = "signed_in alice" and s = example_db,
      THEN conjunct2, THEN conjunct2, THEN conjunct2, THEN conjunct2,
      THEN conjunct2, THEN conjunct2, THEN conjunct2, THEN conjunct2]
  from none have 7: "listMyCollections_schema no_fields = Some \<lparr>lc_page = 1, lc_pageSize = 20\<rparr>"
    by (simp add: undefined)
  from none have 8: "listMyRiddles_schema no_fields
     = Some \<lparr>lr_collectionId = None, lr_favoritesOnly = None, lr_difficulty = None,
             lr_category = None, lr_page = 1, lr_pageSize = 20\<rparr>"
    by (simp add: undefined)
  from none have run: "listMyRiddles no_fields (signed_in alice) example_db
     = listMyRiddles_handler
         \<lparr>lr_collectionId = None, lr_favoritesOnly = None, lr_difficulty = None,
          lr_category = None, lr_page = 1, lr_pageSize = 20\<rparr> (signed_in alice) example_db"
    by (simp add: undefined)
  have 9: "fst (listMyRiddles no_fields (signed_in alice) example_db)
     = Inr \<lparr>items = [piano, echo], total = 2\<rparr>"
    unfolding run
    by (simp add: listMyRiddles_handler_def requireUser_def listMyRiddles_filters_def
        and_all_def truthy_string_def truthy_bool_def store_defs example_defs)
  from validation_precedes_handler
    [where raw = "no_fields(''category'' := JStr ''music'', ''pageSize'' := JNum 50)"]
  have "listMyRiddles_schema (no_fields(''category'' := JStr ''music'', ''pageSize'' := JNum 50))
     = listMyRiddles_schema
         (no_fields(''category'' := JStr ''music'', ''pageSize'' := JNum 50, ''page'' := JNum 1))"
    by (simp add: undefined)
  also have "\<dots> = Some \<lparr>lr_collectionId = None, lr_favoritesOnly = None, lr_difficulty = None,
             lr_category = Some ''music'', lr_page = 1, lr_pageSize = 50\<rparr>"
    by (simp add: listMyRiddles_schema_def undefined z_optional_def z_string_def z_pageSize_def
        z_default_def z_max_def z_positive_def z_number_int_def)
  finally have 10: "listMyRiddles_schema
       (no_fields(''category'' := JStr ''music'', ''pageSize'' := JNum 50))
     = Some \<lparr>lr_collectionId = None, lr_favoritesOnly = None, lr_difficulty = None,
             lr_category = Some ''music'', lr_page = 1, lr_pageSize = 50\<rparr>" .
  from validation_precedes_handler [where raw = "no_fields(''page'' := JNum 3)"]
  have "listMyCollections_schema (no_fields(''page'' := JNum 3))
     = listMyCollections_schema (no_fields(''page'' := JNum 3, ''pageSize'' := JNum 20))"
    by (simp add: undefined)
  also have "\<dots> = Some \<lparr>lc_page = 3, lc_pageSize = 20\<rparr>"
    by (simp add: listMyCollections_schema_def z_page_def z_default_def z_positive_def
        z_number_int_def)
  finally have 11: "listMyCollections_schema (no_fields(''page'' := JNum 3))
     = Some \<lparr>lc_page = 3, lc_pageSize = 20\<rparr>" .
  from 1 2 3 4 5 6 7 8 9 10 11 show ?thesis by (intro conjI)
qed

subsection \<open>Listing\<close>

lemma filters_are_matches_truthy:
  "and_all (listMyRiddles_filters input user) = matches_truthy input (u_id user)"
  by (rule ext)
     (auto simp: and_all_def listMyRiddles_filters_def matches_truthy_def truthy_string_def
       truthy_bool_def split: option.splits)

lemma z_pageSize_Some: "z_pageSize v = Some n \<Longrightarrow> v = JUndefined \<and> n = 20 \<or> 0 < n \<and> n \<le> 100"
  by (auto simp: z_pageSize_def z_default_def z_max_def z_positive_def z_number_int_def
      split: jsval.splits option.splits if_splits)

lemma z_page_Some: "z_page v = Some n \<Longrightarrow> 0 < n"
  by (auto simp: z_page_def z_default_def z_positive_def z_number_int_def
      split: jsval.splits option.splits if_splits)

lemma page_window_page_of:
  "0 \<le> n \<Longrightarrow> page_window n ((p - 1) * n) rows = page_of p n rows"
  by (simp add: page_window_def page_of_def)

text \<open>While the offset stays below \<open>2 ^ 53\<close>, JavaScript computes it exactly.\<close>

lemma js_offset_exact:
  assumes "0 < p" and "0 < n" and "(p - 1) * n < 2 ^ 53"
  shows "js_times (js_minus p 1) n = (p - 1) * n"
proof -
  from assms(1,2) have "(p - 1) * 1 \<le> (p - 1) * n"
    by (intro mult_left_mono) simp_all
  with assms have "\<bar>p - 1\<bar> < 2 ^ 53" by simp
  moreover from assms(1,2) have "0 \<le> (p - 1) * n" by simp
  with assms(3) have "\<bar>(p - 1) * n\<bar> < 2 ^ 53" by simp
  ultimately show ?thesis
    by (simp add: js_times_def js_minus_def to_double_exact)
qed

lemma accepted_page_is_served:
  assumes "0 < p" and "0 < n" and "n \<le> 100" and "(p - 1) * n < 2 ^ 53"
  shows "sqlite_integer n \<and> sqlite_integer (js_times (js_minus p 1) n)"
proof -
  define k where "k = (p - 1) * n"
  from assms(1,2) have "0 \<le> k" by (simp add: k_def)
  moreover from assms(4) have "k < 2 ^ 53" by (simp add: k_def)
  ultimately have "- (2 ^ 63) \<le> k \<and> k < 2 ^ 63" by simp
  moreover from assms(2,3) have "- (2 ^ 63) \<le> n \<and> n < 2 ^ 63" by simp
  ultimately show ?thesis
    by (simp only: js_offset_exact [OF assms(1,2,4)] sqlite_integer_def k_def simp_thms)
qed

lemma listMyRiddles_page:
  assumes "locals_user ctx = Some user" and "listMyRiddles_schema raw = Some input"
    and "(lr_page input - 1) * lr_pageSize input < 2 ^ 53"
  shows "fst (listMyRiddles raw ctx s)
         = Inr \<lparr>items = page_of (lr_page input) (lr_pageSize input)
                          (filter (matches_truthy input (u_id user)) (riddles s)),
                total = length (page_of (lr_page input) (lr_pageSize input)
                          (filter (matches_truthy input (u_id user)) (riddles s)))\<rparr>"
proof -
  from listMyRiddles_schema_Some [OF assms(2)]
  have p: "0 < lr_page input" and n: "0 < lr_pageSize input" "lr_pageSize input \<le> 100"
    by (auto dest: z_pageSize_Some z_page_Some)
  from accepted_page_is_served [OF p n assms(3)] js_offset_exact [OF p n(1) assms(3)] n(1)
  show ?thesis
    using assms(2) requireUser_some [OF assms(1)]
    by (simp add: listMyRiddles_def defineAction_def listMyRiddles_handler_def
        select_riddles_page_def page_window_page_of filters_are_matches_truthy)
qed

lemma listMyCollections_page:
  assumes "locals_user ctx = Some user" and "listMyCollections_schema raw = Some input"
    and "(lc_page input - 1) * lc_pageSize input < 2 ^ 53"
  shows "fst (listMyCollections raw ctx s)
         = Inr \<lparr>items = page_of (lc_page input) (lc_pageSize input)
                          (filter (\<lambda>c. c_userId c = u_id user) (collections s)),
                total = length (page_of (lc_page input) (lc_pageSize input)
                          (filter (\<lambda>c. c_userId c = u_id user) (collections s)))\<rparr>"
proof -
  from listMyCollections_schema_Some [OF assms(2)]
  have p: "0 < lc_page input" and n: "0 < lc_pageSize input" "lc_pageSize input \<le> 100"
    by (auto dest: z_pageSize_Some z_page_Some)
  from accepted_page_is_served [OF p n assms(3)] js_offset_exact [OF p n(1) assms(3)] n(1)
  show ?thesis
    using assms(2) requireUser_some [OF assms(1)]
    by (simp add: listMyCollections_def defineAction_def listMyCollections_handler_def
        select_collections_page_def page_window_page_of)
qed

text \<open>
  Beyond that range nothing is claimed about a page. The schema puts no upper bound on
  \<open>page\<close>, and an offset of \<open>2 ^ 63\<close> or more is refused by the engine: the listing fails
  with its error after the one select, and no page is returned.
\<close>

lemma listing_refused_beyond_int64:
  "listMyCollections_schema (no_fields(''page'' := JNum 10000000000000000000))
     = Some \<lparr>lc_page = 10000000000000000000, lc_pageSize = 20\<rparr>
   \<and> listMyCollections (no_fields(''page'' := JNum 10000000000000000000)) (signed_in alice)
       example_db
     = (Inl MismatchError, example_db\<lparr>issued := [SELECT RiddleCollections]\<rparr>)"
proof -
  have schema: "listMyCollections_schema (no_fields(''page'' := JNum 10000000000000000000))
      = Some \<lparr>lc_page = 10000000000000000000, lc_pageSize = 20\<rparr>"
    by (simp add: listMyCollections_schema_def no_fields_def z_page_def z_default_def
        z_positive_def z_number_int_def)
  have "bit_length 9999999999999999999 = 64"
    by (simp add: bit_length.simps)
  then have minus: "js_minus 10000000000000000000 1 = 10000000000000000000"
    by (simp add: js_minus_def to_double_def)
  have "bit_length 200000000000000000000 = 68"
    by (simp add: bit_length.simps)
  then have "js_times 10000000000000000000 20 = 200000000000000000000"
    by (simp add: js_times_def to_double_def)
  with minus show ?thesis
    using schema
    by (simp add: listMyCollections_def defineAction_def listMyCollections_handler_def
        requireUser_def select_collections_page_def sqlite_integer_def record_statement_def
        example_db_def)
qed

text \<open>
  Claim C7 as stated fails. A \<open>category\<close> given as the empty string passes the schema,
  and the handler does not push a filter for it: Alice gets both her riddles, although
  neither has the empty category, so the rows that match every provided filter are none.
\<close>

theorem listing_provided_filters_counterexample:
  "listMyRiddles_schema (no_fields(''category'' := JStr []))
     = Some \<lparr>lr_collectionId = None, lr_favoritesOnly = None, lr_difficulty = None,
             lr_category = Some [], lr_page = 1, lr_pageSize = 20\<rparr>
   \<and> fst (listMyRiddles (no_fields(''category'' := JStr [])) (signed_in alice) example_db)
     = Inr \<lparr>items = [piano, echo], total = 2\<rparr>
   \<and> page_of 1 20
        (filter (matches_provided
                   \<lparr>lr_collectionId = None, lr_favoritesOnly = None, lr_difficulty = None,
                    lr_category = Some [], lr_page = 1, lr_pageSize = 20\<rparr> (u_id alice))
           (riddles example_db))
     = []"
proof -
  let ?raw = "no_fields(''category'' := JStr [])"
  let ?input = "\<lparr>lr_collectionId = None, lr_favoritesOnly = None, lr_difficulty = None,
                  lr_category = Some [], lr_page = 1, lr_pageSize = 20\<rparr>"
  have schema: "listMyRiddles_schema ?raw = Some ?input"
    by (simp add: listMyRiddles_schema_def no_fields_def z_optional_def z_string_def)
  have "fst (listMyRiddles ?raw (signed_in alice) example_db)
        = Inr \<lparr>items = [piano, echo], total = 2\<rparr>"
    by (simp add: listMyRiddles_def defineAction_def schema listMyRiddles_handler_def
        requireUser_def listMyRiddles_filters_def and_all_def truthy_string_def truthy_bool_def
        store_defs example_defs)
  moreover have "page_of 1 20 (filter (matches_provided ?input (u_id alice)) (riddles example_db)) = []"
    by (simp add: matches_provided_def page_of_def example_defs)
  ultimately show ?thesis using schema by simp
qed

text \<open>
  Claim C7, amended. For an authenticated caller and a raw input that the schema accepts
  and whose offset \<open>(page - 1) * pageSize\<close> is below \<open>2 ^ 53\<close>, \<^verbatim>\<open>listMyRiddles\<close> returns
  the page of the caller's riddles that match every filter whose value is truthy: a
  \<open>collectionId\<close> or \<open>category\<close> given as the empty string, and \<open>favoritesOnly\<close> given
  as \<^verbatim>\<open>false\<close>, restrict nothing. The page is the rows from that offset on, at most
  \<open>pageSize\<close> of them, in table order, and \<open>total\<close> is the number of rows in the page.
  \<^verbatim>\<open>listMyCollections\<close> returns the page of the caller's collections with the same \<open>total\<close>.
\<close>

theorem listing_page_contract:
  assumes "locals_user ctx = Some user"
  shows "(listMyRiddles_schema raw = Some in_lr
          \<and> (lr_page in_lr - 1) * lr_pageSize in_lr < 2 ^ 53 \<longrightarrow>
            fst (listMyRiddles raw ctx s)
              = Inr \<lparr>items = page_of (lr_page in_lr) (lr_pageSize in_lr)
                               (filter (matches_truthy in_lr (u_id user)) (riddles s)),
                     total = length (page_of (lr_page in_lr) (lr_pageSize in_lr)
                               (filter (matches_truthy in_lr (u_id user)) (riddles s)))\<rparr>
            \<and> length (page_of (lr_page in_lr) (lr_pageSize in_lr)
                        (filter (matches_truthy in_lr (u_id user)) (riddles s)))
                \<le> nat (lr_pageSize in_lr))
       \<and> (listMyCollections_schema raw = Some in_lc
          \<and> (lc_page in_lc - 1) * lc_pageSize in_lc < 2 ^ 53 \<longrightarrow>
            fst (listMyCollections raw ctx s)
              = Inr \<lparr>items = page_of (lc_page in_lc) (lc_pageSize in_lc)
                               (filter (\<lambda>c. c_userId c = u_id user) (collections s)),
                     total = length (page_of (lc_page in_lc) (lc_pageSize in_lc)
                               (filter (\<lambda>c. c_userId c = u_id user) (collections s)))\<rparr>
            \<and> length (page_of (lc_page in_lc) (lc_pageSize in_lc)
                        (filter (\<lambda>c. c_userId c = u_id user) (collections s)))
                \<le> nat (lc_pageSize in_lc))"
    (is "(?accept_r \<longrightarrow> ?page_r) \<and> (?accept_c \<longrightarrow> ?page_c)")
proof (rule conjI; rule impI)
  assume ?accept_r
  then have "listMyRiddles_schema raw = Some in_lr"
    and "(lr_page in_lr - 1) * lr_pageSize in_lr < 2 ^ 53"
    by simp_all
  from listMyRiddles_page [OF assms this] show ?page_r
    by (simp add: page_of_def)
next
  assume ?accept_c
  then have "listMyCollections_schema raw = Some in_lc"
    and "(lc_page in_lc - 1) * lc_pageSize in_lc < 2 ^ 53"
    by simp_all
  from listMyCollections_page [OF assms this] show ?page_c
    by (simp add: page_of_def)
qed

theorem listing_page_contract_witness:
  "locals_user (signed_in alice) = Some alice
   \<and> listMyRiddles_schema (no_fields(''collectionId'' := JStr ''c1''))
       = Some \<lparr>lr_collectionId = Some ''c1'', lr_favoritesOnly = None, lr_difficulty = None,
               lr_category = None, lr_page = 1, lr_pageSize = 20\<rparr>
   \<and> ((1::int) - 1) * 20 < 2 ^ 53
   \<and> fst (listMyRiddles (no_fields(''collectionId'' := JStr ''c1'')) (signed_in alice) example_db)
       = Inr \<lparr>items = [piano], total = 1\<rparr>
   \<and> listMyCollections_schema (no_fields(''collectionId'' := JStr ''c1''))
       = Some \<lparr>lc_page = 1, lc_pageSize = 20\<rparr>
   \<and> fst (listMyCollections (no_fields(''collectionId'' := JStr ''c1'')) (signed_in alice) example_db)
       = Inr \<lparr>items = [logic], total = 1\<rparr>"
proof -
  let ?raw = "no_fields(''collectionId'' := JStr ''c1'')"
  let ?in_lr = "\<lparr>lr_collectionId = Some ''c1'', lr_favoritesOnly = None, lr_difficulty = None,
                  lr_category = None, lr_page = 1, lr_pageSize = 20\<rparr>"
  let ?in_lc = "\<lparr>lc_page = 1, lc_pageSize = 20\<rparr>"
  have h: "locals_user (signed_in alice) = Some alice" by simp
  have r: "listMyRiddles_schema ?raw = Some ?in_lr"
    by (simp add: listMyRiddles_schema_def no_fields_def z_optional_def z_string_def)
  have c: "listMyCollections_schema ?raw = Some ?in_lc"
    by (simp add: listMyCollections_schema_def no_fields_def)
  note inst = listing_page_contract [OF h, where raw = ?raw and in_lr = ?in_lr
      and in_lc = ?in_lc and s = example_db]
  from inst r
  have "fst (listMyRiddles ?raw (signed_in alice) example_db) = Inr \<lparr>items = [piano], total = 1\<rparr>"
    by (simp add: page_of_def matches_truthy_def example_defs)
  moreover from inst c
  have "fst (listMyCollections ?raw (signed_in alice) example_db) = Inr \<lparr>items = [logic], total = 1\<rparr>"
    by (simp add: page_of_def example_defs)
  ultimately show ?thesis using h r c by simp
qed

subsection \<open>References stay owned\<close>

lemma owned_references_iff:
  "owned_references s \<longleftrightarrow>
     (\<forall>r\<in>set (riddles s). \<forall>cid. r_collectionId r = Some cid \<longrightarrow>
        (\<exists>c\<in>set (collections s). c_id c = cid \<and> c_userId c = r_userId r))"
  by (simp add: owned_references_def list_all_iff list_ex_iff split: option.split)

lemma collection_ids_nonempty_iff:
  "collection_ids_nonempty s \<longleftrightarrow> (\<forall>c\<in>set (collections s). c_id c \<noteq> [])"
  by (simp add: collection_ids_nonempty_def list_all_iff)

lemma well_referenced_same_rows:
  "collections s' = collections s \<Longrightarrow> riddles s' = riddles s \<Longrightarrow>
     well_referenced s' = well_referenced s"
  by (simp add: well_referenced_def owned_references_iff collection_ids_nonempty_iff)

lemma well_referenced_record_statement [simp]:
  "well_referenced (record_statement q s) = well_referenced s"
  by (rule well_referenced_same_rows) simp_all

lemma well_referenced_select_collections [simp]:
  "well_referenced (snd (select_collections p s)) = well_referenced s"
  by (simp add: select_collections_def)

lemma well_referenced_select_riddles [simp]:
  "well_referenced (snd (select_riddles p s)) = well_referenced s"
  by (simp add: select_riddles_def)

lemma well_referenced_update_collections:
  assumes "well_referenced s"
    and "\<And>c. c_id (f c) = c_id c \<and> c_userId (f c) = c_userId c"
  shows "well_referenced (snd (update_collections f p s))"
proof -
  let ?s' = "snd (update_collections f p s)"
  have cs: "collections ?s' = map (\<lambda>c. if p c then f c else c) (collections s)"
    and rs: "riddles ?s' = riddles s"
    by (simp_all add: update_collections_def)
  have keep: "\<exists>c'\<in>set (collections ?s'). c_id c' = c_id c \<and> c_userId c' = c_userId c"
    if "c \<in> set (collections s)" for c
  proof -
    from that have "(if p c then f c else c) \<in> set (collections ?s')" by (simp add: cs)
    moreover have "c_id (if p c then f c else c) = c_id c"
      "c_userId (if p c then f c else c) = c_userId c"
      using assms(2) by simp_all
    ultimately show ?thesis by blast
  qed
  have "owned_references ?s'"
    unfolding owned_references_iff
  proof (intro ballI allI impI)
    fix r cid assume "r \<in> set (riddles ?s')" "r_collectionId r = Some cid"
    with assms(1) rs obtain c where "c \<in> set (collections s)" "c_id c = cid" "c_userId c = r_userId r"
      by (auto simp: well_referenced_def owned_references_iff)
    with keep [of c] show "\<exists>c\<in>set (collections ?s'). c_id c = cid \<and> c_userId c = r_userId r"
      by auto
  qed
  moreover have "collection_ids_nonempty ?s'"
    using assms by (auto simp: well_referenced_def collection_ids_nonempty_iff cs)
  ultimately show ?thesis by (simp add: well_referenced_def)
qed

lemma well_referenced_insert_collection:
  assumes "well_referenced s" and "c_id row \<noteq> []"
  shows "well_referenced (snd (insert_collection row s))"
  using assms
  by (auto simp: insert_collection_def well_referenced_def owned_references_iff
      collection_ids_nonempty_iff)

lemma well_referenced_delete_collections:
  assumes "well_referenced s"
  shows "well_referenced (snd (delete_collections p s))"
proof (cases "list_ex (referenced s) (filter p (collections s))")
  case True
  with assms show ?thesis by (simp add: delete_collections_def)
next
  case False
  let ?s' = "snd (delete_collections p s)"
  from False have cs: "collections ?s' = filter (\<lambda>c. \<not> p c) (collections s)"
    and rs: "riddles ?s' = riddles s"
    by (simp_all add: delete_collections_def)
  have "owned_references ?s'"
    unfolding owned_references_iff
  proof (intro ballI allI impI)
    fix r cid assume r: "r \<in> set (riddles ?s')" "r_collectionId r = Some cid"
    with assms rs obtain c where c: "c \<in> set (collections s)" "c_id c = cid" "c_userId c = r_userId r"
      by (auto simp: well_referenced_def owned_references_iff)
    have "\<not> p c"
    proof
      assume "p c"
      with c(1) False have "\<not> referenced s c" by (auto simp: list_ex_iff)
      with r rs c(2) show False by (auto simp: referenced_def list_ex_iff)
    qed
    with c show "\<exists>c\<in>set (collections ?s'). c_id c = cid \<and> c_userId c = r_userId r"
      by (auto simp: cs)
  qed
  moreover have "collection_ids_nonempty ?s'"
    using assms by (auto simp: well_referenced_def collection_ids_nonempty_iff cs)
  ultimately show ?thesis by (simp add: well_referenced_def)
qed

lemma well_referenced_insert_riddle:
  assumes "well_referenced s"
    and "\<And>cid. r_collectionId row = Some cid \<Longrightarrow> cid \<noteq> [] \<Longrightarrow>
           \<exists>c\<in>set (collections s). c_id c = cid \<and> c_userId c = r_userId row"
  shows "well_referenced (snd (insert_riddle row s))"
proof (cases "r_id row \<in> set (map r_id (riddles s)) \<or> \<not> resolves s row")
  case True
  with assms(1) show ?thesis by (simp add: insert_riddle_def)
next
  case False
  let ?s' = "snd (insert_riddle row s)"
  from False have rs: "riddles ?s' = riddles s @ [row]" and cs: "collections ?s' = collections s"
    by (simp_all add: insert_riddle_def)
  have new: "\<exists>c\<in>set (collections s). c_id c = cid \<and> c_userId c = r_userId row"
    if "r_collectionId row = Some cid" for cid
  proof -
    from False that have "cid \<in> c_id ` set (collections s)" by (simp add: resolves_def)
    with assms(1) have "cid \<noteq> []"
      by (auto simp: well_referenced_def collection_ids_nonempty_iff)
    with assms(2) that show ?thesis by blast
  qed
  have "owned_references ?s'"
    unfolding owned_references_iff
  proof (intro ballI allI impI)
    fix r cid assume "r \<in> set (riddles ?s')" "r_collectionId r = Some cid"
    with assms(1) new rs cs show "\<exists>c\<in>set (collections ?s'). c_id c = cid \<and> c_userId c = r_userId r"
      by (auto simp: well_referenced_def owned_references_iff)
  qed
  with assms(1) cs show ?thesis
    by (simp add: well_referenced_def collection_ids_nonempty_def)
qed

lemma well_referenced_update_riddles:
  assumes "well_referenced s"
    and "\<And>r. r \<in> set (riddles s) \<Longrightarrow> p r \<Longrightarrow> r_userId (f r) = r_userId r"
    and "\<And>r cid. r \<in> set (riddles s) \<Longrightarrow> p r \<Longrightarrow> r_collectionId (f r) = Some cid \<Longrightarrow>
           r_collectionId (f r) \<noteq> r_collectionId r \<Longrightarrow> cid \<noteq> [] \<Longrightarrow>
           \<exists>c\<in>set (collections s). c_id c = cid \<and> c_userId c = r_userId r"
  shows "well_referenced (snd (update_riddles f p s))"
proof (cases "list_ex (\<lambda>r. r_collectionId (f r) \<noteq> r_collectionId r \<and> \<not> resolves s (f r))
                (filter p (riddles s))")
  case True
  with assms(1) show ?thesis by (simp add: update_riddles_def)
next
  case False
  let ?s' = "snd (update_riddles f p s)"
  from False have rs: "riddles ?s' = map (\<lambda>r. if p r then f r else r) (riddles s)"
    and cs: "collections ?s' = collections s"
    by (simp_all add: update_riddles_def)
  from False have checked: "resolves s (f r)"
    if "r \<in> set (riddles s)" "p r" "r_collectionId (f r) \<noteq> r_collectionId r" for r
    using that by (auto simp: list_ex_iff)
  from assms(1) have old: "\<exists>c\<in>set (collections s). c_id c = cid \<and> c_userId c = r_userId r"
    if "r \<in> set (riddles s)" "r_collectionId r = Some cid" for r cid
    using that by (auto simp: well_referenced_def owned_references_iff)
  from assms(1) have nonempty: "c_id c \<noteq> []" if "c \<in> set (collections s)" for c
    using that by (auto simp: well_referenced_def collection_ids_nonempty_iff)
  have "owned_references ?s'"
    unfolding owned_references_iff
  proof (intro ballI allI impI)
    fix r' cid assume "r' \<in> set (riddles ?s')" and cid: "r_collectionId r' = Some cid"
    then obtain r where r: "r \<in> set (riddles s)" "r' = (if p r then f r else r)"
      by (auto simp: rs)
    show "\<exists>c\<in>set (collections ?s'). c_id c = cid \<and> c_userId c = r_userId r'"
    proof (cases "p r")
      case False
      with r cid old [of r cid] show ?thesis by (simp add: cs)
    next
      case True
      with r have r': "r' = f r" by simp
      show ?thesis
      proof (cases "r_collectionId (f r) = r_collectionId r")
        case True
        with r' cid old [of r cid] assms(2) [OF r(1) \<open>p r\<close>] r(1) show ?thesis
          by (simp add: cs)
      next
        case False
        from checked [OF r(1) \<open>p r\<close> False] r' cid
        have "cid \<in> c_id ` set (collections s)" by (simp add: resolves_def)
        with nonempty have "cid \<noteq> []" by auto
        from assms(3) [OF r(1) \<open>p r\<close> _ False this] r' cid assms(2) [OF r(1) \<open>p r\<close>]
        show ?thesis by (simp add: cs)
      qed
    qed
  qed
  with assms(1) cs show ?thesis
    by (simp add: well_referenced_def collection_ids_nonempty_def)
qed

lemma well_referenced_delete_riddles:
  assumes "well_referenced s"
  shows "well_referenced (snd (delete_riddles p s))"
  using assms
  by (auto simp: delete_riddles_def well_referenced_def owned_references_iff
      collection_ids_nonempty_iff)

lemma detach_keys [simp]:
  "r_userId (detach now r) = r_userId r" "r_collectionId (detach now r) = None"
  by (simp_all add: detach_def)

lemma riddle_updateData_keys [simp]:
  "r_id (riddle_updateData input now r) = r_id r"
  "r_userId (riddle_updateData input now r) = r_userId r"
  "r_collectionId (riddle_updateData input now r)
     = (case ur_collectionId input of None \<Rightarrow> r_collectionId r | Some v \<Rightarrow> column_of v)"
  by (simp_all add: riddle_updateData_def column_of_def split: option.splits nullable.splits)

lemma well_referenced_check_collection [simp]:
  "well_referenced (snd (check_collection cid user s)) = well_referenced s"
  by (rule well_referenced_same_rows)
     (simp_all add: check_collection_def select_collections_def case_prod_beta)

lemma createRiddleCollection_handler_well_referenced:
  assumes "well_referenced s" and "uuid \<noteq> []"
  shows "well_referenced (snd (createRiddleCollection_handler input ctx now uuid s))"
proof (cases "requireUser ctx")
  case (Inl e)
  with assms show ?thesis by (simp add: createRiddleCollection_handler_def)
next
  case (Inr user)
  let ?s1 = "if truthy_bool (cc_isDefault input)
             then snd (update_collections (clear_default now) (\<lambda>c. c_userId c = u_id user) s)
             else s"
  have "well_referenced ?s1"
    using assms(1) by (simp add: well_referenced_update_collections)
  then have "well_referenced (snd (insert_collection
      \<lparr>c_id = uuid, c_userId = u_id user, c_name = cc_name input,
       c_description = cc_description input, c_icon = cc_icon input,
       c_isDefault = (case cc_isDefault input of None \<Rightarrow> False | Some b \<Rightarrow> b),
       c_createdAt = now, c_updatedAt = now\<rparr> ?s1))"
    using assms(2) by (intro well_referenced_insert_collection) simp_all
  with Inr show ?thesis
    by (simp add: createRiddleCollection_handler_def Let_def)
qed

lemma updateRiddleCollection_handler_well_referenced:
  assumes "well_referenced s"
  shows "well_referenced (snd (updateRiddleCollection_handler input ctx now s))"
proof (cases "requireUser ctx")
  case (Inl e)
  with assms show ?thesis by (simp add: updateRiddleCollection_handler_def)
next
  case (Inr user)
  let ?target = "\<lambda>c. c_id c = uc_id input \<and> c_userId c = u_id user"
  let ?s1 = "snd (select_collections ?target s)"
  let ?s2 = "if truthy_bool (uc_isDefault input)
             then snd (update_collections (clear_default now) (\<lambda>c. c_userId c = u_id user) ?s1)
             else ?s1"
  have s1: "well_referenced ?s1" using assms by simp
  then have "well_referenced ?s2"
    by (simp add: well_referenced_update_collections)
  then have "well_referenced (snd (update_collections (collection_updateData input now) ?target ?s2))"
    by (intro well_referenced_update_collections) simp_all
  with Inr s1 show ?thesis
    by (simp add: updateRiddleCollection_handler_def Let_def case_prod_beta)
qed

lemma deleteRiddleCollection_handler_well_referenced:
  assumes "well_referenced s"
  shows "well_referenced (snd (deleteRiddleCollection_handler input ctx now s))"
proof (cases "requireUser ctx")
  case (Inl e)
  with assms show ?thesis by (simp add: deleteRiddleCollection_handler_def)
next
  case (Inr user)
  let ?target = "\<lambda>c. c_id c = dc_id input \<and> c_userId c = u_id user"
  let ?mine = "\<lambda>r. r_collectionId r = Some (dc_id input) \<and> r_userId r = u_id user"
  let ?s1 = "snd (select_collections ?target s)"
  let ?s2 = "snd (update_riddles (detach now) ?mine ?s1)"
  have s1: "well_referenced ?s1" using assms by simp
  then have "well_referenced ?s2"
    by (intro well_referenced_update_riddles) simp_all
  then have "well_referenced (snd (delete_collections ?target ?s2))"
    by (rule well_referenced_delete_collections)
  with Inr s1 show ?thesis
    by (simp add: deleteRiddleCollection_handler_def Let_def case_prod_beta update_riddles_detach)
qed

lemma createRiddle_handler_well_referenced:
  assumes "well_referenced s"
  shows "well_referenced (snd (createRiddle_handler input ctx now uuid s))"
proof (cases "requireUser ctx")
  case (Inl e)
  with assms show ?thesis by (simp add: createRiddle_handler_def)
next
  case (Inr user)
  let ?row = "\<lparr>r_id = uuid, r_collectionId = cr_collectionId input,
               r_userId = u_id user, r_question = cr_question input,
               r_answer = cr_answer input, r_hint = cr_hint input,
               r_difficulty = cr_difficulty input, r_category = cr_category input,
               r_language = cr_language input,
               r_isFavorite = (case cr_isFavorite input of None \<Rightarrow> False | Some b \<Rightarrow> b),
               r_isPublic = (case cr_isPublic input of None \<Rightarrow> False | Some b \<Rightarrow> b),
               r_createdAt = now, r_updatedAt = now\<rparr>"
  show ?thesis
  proof (cases "truthy_string (cr_collectionId input)")
    case None
    then have "\<And>cid. cr_collectionId input = Some cid \<Longrightarrow> cid = []"
      by (simp add: truthy_string_def split: if_splits)
    then have "well_referenced (snd (insert_riddle ?row s))"
      using assms by (intro well_referenced_insert_riddle) auto
    with Inr None show ?thesis
      by (simp add: createRiddle_handler_def)
  next
    case (Some cid)
    then have cid: "cr_collectionId input = Some cid"
      by (simp add: truthy_string_def split: option.splits if_splits)
    obtain res s1 where chk: "check_collection cid user s = (res, s1)"
      by (cases "check_collection cid user s")
    from well_referenced_check_collection [of cid user s] chk assms
    have s1: "well_referenced s1" by simp
    show ?thesis
    proof (cases res)
      case (Inl e)
      with Inr Some chk s1 show ?thesis
        by (simp add: createRiddle_handler_def)
    next
      case (Inr u)
      with chk check_collection_Inr [of cid user s u s1]
      have "\<exists>c\<in>set (collections s1). c_id c = cid \<and> c_userId c = u_id user"
        by simp
      with cid s1 have "well_referenced (snd (insert_riddle ?row s1))"
        by (intro well_referenced_insert_riddle) auto
      with \<open>requireUser ctx = Inr user\<close> Some chk Inr show ?thesis
        by (simp add: createRiddle_handler_def)
    qed
  qed
qed

lemma updateRiddle_handler_well_referenced:
  assumes "well_referenced s"
  shows "well_referenced (snd (updateRiddle_handler input ctx now s))"
proof (cases "requireUser ctx")
  case (Inl e)
  with assms show ?thesis by (simp add: updateRiddle_handler_def)
next
  case (Inr user)
  let ?target = "\<lambda>r. r_id r = ur_id input \<and> r_userId r = u_id user"
  let ?s1 = "record_statement (SELECT Riddles) s"
  have s1: "well_referenced ?s1" using assms by simp
  obtain res s2 where chk:
    "(case collection_to_check (ur_collectionId input) of
        Some cid \<Rightarrow> check_collection cid user ?s1
      | None \<Rightarrow> (Inr (), ?s1)) = (res, s2)"
    by (cases "case collection_to_check (ur_collectionId input) of
        Some cid \<Rightarrow> check_collection cid user ?s1
      | None \<Rightarrow> (Inr (), ?s1)")
  have s2: "well_referenced s2" and rows: "collections s2 = collections ?s1"
  proof -
    show "well_referenced s2"
    proof (cases "collection_to_check (ur_collectionId input)")
      case None
      with chk s1 show ?thesis by simp
    next
      case (Some cid)
      with chk well_referenced_check_collection [of cid user ?s1] s1 show ?thesis by simp
    qed
    show "collections s2 = collections ?s1"
    proof (cases "collection_to_check (ur_collectionId input)")
      case None
      with chk show ?thesis by auto
    next
      case (Some cid)
      with chk show ?thesis
        by (auto simp: check_collection_def select_collections_def case_prod_beta
            split: if_splits)
    qed
  qed
  show ?thesis
  proof (cases "filter ?target (riddles s) = []")
    case True
    with Inr s1 show ?thesis
      by (simp add: updateRiddle_handler_def select_riddles_def)
  next
    case False
    show ?thesis
    proof (cases res)
      case (Inl e)
      with Inr False chk s2 show ?thesis
        by (simp add: updateRiddle_handler_def select_riddles_def)
    next
      case ok: (Inr u)
      have "well_referenced (snd (update_riddles (riddle_updateData input now) ?target s2))"
      proof (rule well_referenced_update_riddles [OF s2])
        fix r assume "r \<in> set (riddles s2)" "?target r"
        show "r_userId (riddle_updateData input now r) = r_userId r" by simp
      next
        fix r cid
        assume r: "r \<in> set (riddles s2)" "?target r"
          and new: "r_collectionId (riddle_updateData input now r) = Some cid"
          and changed: "r_collectionId (riddle_updateData input now r) \<noteq> r_collectionId r"
          and "cid \<noteq> []"
        from new changed have "ur_collectionId input = Some (Value cid)"
          by (auto simp: column_of_def split: option.splits nullable.splits)
        with \<open>cid \<noteq> []\<close> have "collection_to_check (ur_collectionId input) = Some cid"
          by (simp add: collection_to_check_def truthy_string_def)
        with chk ok have "check_collection cid user ?s1 = (Inr u, s2)" by simp
        from check_collection_Inr [OF this] rows r(2)
        show "\<exists>c\<in>set (collections s2). c_id c = cid \<and> c_userId c = r_userId r"
          by simp
      qed
      with Inr False chk ok show ?thesis
        by (simp add: updateRiddle_handler_def select_riddles_def)
    qed
  qed
qed

lemma deleteRiddle_handler_well_referenced:
  assumes "well_referenced s"
  shows "well_referenced (snd (deleteRiddle_handler input ctx s))"
proof (cases "requireUser ctx")
  case (Inl e)
  with assms show ?thesis by (simp add: deleteRiddle_handler_def)
next
  case (Inr user)
  let ?target = "\<lambda>r. r_id r = dr_id input \<and> r_userId r = u_id user"
  let ?s1 = "snd (select_riddles ?target s)"
  have s1: "well_referenced ?s1" using assms by simp
  then have "well_referenced (snd (delete_riddles ?target ?s1))"
    by (rule well_referenced_delete_riddles)
  with Inr s1 show ?thesis
    by (simp add: deleteRiddle_handler_def Let_def case_prod_beta)
qed

lemma listing_handlers_well_referenced:
  "well_referenced (snd (listMyCollections_handler in_lc ctx s)) = well_referenced s"
  "well_referenced (snd (listMyRiddles_handler in_lr ctx s)) = well_referenced s"
  by (rule well_referenced_same_rows;
      simp add: listMyCollections_handler_tables listMyRiddles_handler_tables)+

lemma actions_well_referenced:
  assumes "well_referenced s"
  shows "uuid \<noteq> [] \<Longrightarrow> well_referenced (snd (createRiddleCollection raw ctx now uuid s))"
    and "well_referenced (snd (updateRiddleCollection raw ctx now s))"
    and "well_referenced (snd (deleteRiddleCollection raw ctx now s))"
    and "well_referenced (snd (createRiddle raw ctx now uuid s))"
    and "well_referenced (snd (updateRiddle raw ctx now s))"
    and "well_referenced (snd (deleteRiddle raw ctx s))"
    and "well_referenced (snd (listMyCollections raw ctx s))"
    and "well_referenced (snd (listMyRiddles raw ctx s))"
  using assms
  by (simp_all add: action_defs defineAction_def
      createRiddleCollection_handler_well_referenced
      updateRiddleCollection_handler_well_referenced
      deleteRiddleCollection_handler_well_referenced
      createRiddle_handler_well_referenced updateRiddle_handler_well_referenced
      deleteRiddle_handler_well_referenced listing_handlers_well_referenced
      split: option.splits)

lemma well_referenced_empty_db: "well_referenced empty_db"
  by (simp add: well_referenced_def owned_references_def collection_ids_nonempty_def empty_db_def)

lemma reachable_well_referenced: "reachable s \<Longrightarrow> well_referenced s"
  by (induction rule: reachable.induct)
     (simp_all add: well_referenced_empty_db actions_well_referenced)

text \<open>
  Claim C3. In every state that the eight actions reach from the empty store, every
  riddle whose \<open>collectionId\<close> is not NULL references a collection that exists and has
  the riddle's owner; and so it is again after \<^verbatim>\<open>createRiddle\<close>, \<^verbatim>\<open>updateRiddle\<close> and
  \<^verbatim>\<open>deleteRiddleCollection\<close> on such a state, for every raw input (every supplied
  \<open>collectionId\<close>, the empty string included), every request context and whether the
  action succeeds or fails.
\<close>

theorem references_stay_owned:
  assumes "reachable s"
  shows "owned_references s
       \<and> owned_references (snd (createRiddle raw ctx now uuid s))
       \<and> owned_references (snd (updateRiddle raw ctx now s))
       \<and> owned_references (snd (deleteRiddleCollection raw ctx now s))"
proof -
  from assms have "well_referenced s" by (rule reachable_well_referenced)
  from this actions_well_referenced(3,4,5) [OF this]
  show ?thesis by (simp add: well_referenced_def)
qed

theorem references_stay_owned_witness:
  "reachable
     (snd (createRiddle
        (no_fields(''question'' := JStr ''Q'', ''answer'' := JStr ''A'',
                   ''collectionId'' := JStr ''c1''))
        (signed_in alice) 2 ''r1''
        (snd (createRiddleCollection (no_fields(''name'' := JStr ''Logic''))
                (signed_in alice) 1 ''c1'' empty_db))))
   \<and> map r_collectionId (riddles
     (snd (createRiddle
        (no_fields(''question'' := JStr ''Q'', ''answer'' := JStr ''A'',
                   ''collectionId'' := JStr ''c1''))
        (signed_in alice) 2 ''r1''
        (snd (createRiddleCollection (no_fields(''name'' := JStr ''Logic''))
                (signed_in alice) 1 ''c1'' empty_db))))) = [Some ''c1'']
   \<and> owned_references
     (snd (createRiddle
        (no_fields(''question'' := JStr ''Q'', ''answer'' := JStr ''A'',
                   ''collectionId'' := JStr ''c1''))
        (signed_in alice) 2 ''r1''
        (snd (createRiddleCollection (no_fields(''name'' := JStr ''Logic''))
                (signed_in alice) 1 ''c1'' empty_db))))"
proof -
  let ?raw_c = "no_fields(''name'' := JStr ''Logic'')"
  let ?raw_r = "no_fields(''question'' := JStr ''Q'', ''answer'' := JStr ''A'',
                          ''collectionId'' := JStr ''c1'')"
  let ?s1 = "snd (createRiddleCollection ?raw_c (signed_in alice) 1 ''c1'' empty_db)"
  let ?s2 = "snd (createRiddle ?raw_r (signed_in alice) 2 ''r1'' ?s1)"
  have "reachable ?s1"
    by (rule reachable.by_createRiddleCollection [OF reachable.initial]) simp
  then have reach: "reachable ?s2"
    by (rule reachable.by_createRiddle)
  have parsed_c: "createRiddleCollection_schema ?raw_c
      = Some \<lparr>cc_name = ''Logic'', cc_description = None, cc_icon = None, cc_isDefault = None\<rparr>"
    by (simp add: createRiddleCollection_schema_def no_fields_def z_min_def z_string_def
        z_optional_def)
  have parsed_r: "createRiddle_schema ?raw_r
      = Some \<lparr>cr_question = ''Q'', cr_answer = ''A'', cr_hint = None, cr_difficulty = None,
              cr_category = None, cr_language = None, cr_collectionId = Some ''c1'',
              cr_isFavorite = None, cr_isPublic = None\<rparr>"
    by (simp add: createRiddle_schema_def no_fields_def z_min_def z_string_def z_optional_def)
  have cs: "collections ?s1
      = [\<lparr>c_id = ''c1'', c_userId = ''alice'', c_name = ''Logic'', c_description = None,
          c_icon = None, c_isDefault = False, c_createdAt = 1, c_updatedAt = 1\<rparr>]"
    and rs: "riddles ?s1 = []"
    by (simp_all add: createRiddleCollection_def defineAction_def parsed_c
        createRiddleCollection_handler_def requireUser_def truthy_bool_def store_defs
        empty_db_def alice_def)
  have "map r_collectionId (riddles ?s2) = [Some ''c1'']"
    using cs rs
    by (simp add: createRiddle_def defineAction_def parsed_r createRiddle_handler_def
        requireUser_def truthy_string_def check_collection_def store_defs alice_def)
  moreover from references_stay_owned [OF reach] have "owned_references ?s2" by simp
  ultimately show ?thesis using reach by simp
qed

subsection \<open>A collection that is not the caller's\<close>

lemma createRiddle_foreign_collection:
  assumes "locals_user ctx = Some user"
    and "cr_collectionId input = Some cid" and "cid \<noteq> []"
    and "\<forall>c\<in>set (collections s). \<not> (c_id c = cid \<and> c_userId c = u_id user)"
  shows "createRiddle_handler input ctx now uuid s
         = (Inl (ActionError FORBIDDEN), record_statement (SELECT RiddleCollections) s)"
  using assms(2-) requireUser_some [OF assms(1)]
  by (simp add: createRiddle_handler_def truthy_string_def check_collection_def
      select_collections_def filter_nil_iff)

lemma updateRiddle_foreign_collection:
  assumes "locals_user ctx = Some user"
    and "ur_collectionId input = Some (Value cid)" and "cid \<noteq> []"
    and "\<forall>c\<in>set (collections s). \<not> (c_id c = cid \<and> c_userId c = u_id user)"
    and "filter (\<lambda>r. r_id r = ur_id input \<and> r_userId r = u_id user) (riddles s) \<noteq> []"
  shows "updateRiddle_handler input ctx now s
         = (Inl (ActionError FORBIDDEN),
            record_statement (SELECT RiddleCollections) (record_statement (SELECT Riddles) s))"
  using assms(2-) requireUser_some [OF assms(1)]
  by (simp add: updateRiddle_handler_def collection_to_check_def truthy_string_def
      check_collection_def select_collections_def select_riddles_def filter_nil_iff)

text \<open>
  Claim C4 at the empty string. The raw inputs below pass their schemas, and the empty
  string is the id of no collection. \<^verbatim>\<open>createRiddle\<close> does not run the ownership check (the
  only statement it issues is the insert) and \<^verbatim>\<open>updateRiddle\<close> selects the riddle and
  goes on to the update; both statements write \<open>collectionId = ''''\<close> and fail on the
  declared reference, so the error is the engine's and not \<^verbatim>\<open>FORBIDDEN\<close>.
\<close>

theorem empty_collectionId_not_forbidden:
  "createRiddle
     (no_fields(''question'' := JStr ''Q'', ''answer'' := JStr ''A'', ''collectionId'' := JStr []))
     (signed_in alice) 9 ''r3'' example_db
     = (Inl ConstraintError, example_db\<lparr>issued := [INSERT Riddles]\<rparr>)
   \<and> updateRiddle (no_fields(''id'' := JStr ''r1'', ''collectionId'' := JStr []))
       (signed_in alice) 9 example_db
     = (Inl ConstraintError, example_db\<lparr>issued := [SELECT Riddles, UPDATE Riddles]\<rparr>)"
proof -
  have "createRiddle_schema
          (no_fields(''question'' := JStr ''Q'', ''answer'' := JStr ''A'',
                     ''collectionId'' := JStr []))
        = Some \<lparr>cr_question = ''Q'', cr_answer = ''A'', cr_hint = None, cr_difficulty = None,
                cr_category = None, cr_language = None, cr_collectionId = Some [],
                cr_isFavorite = None, cr_isPublic = None\<rparr>"
    by (simp add: createRiddle_schema_def no_fields_def z_min_def z_string_def z_optional_def)
  moreover have "updateRiddle_schema (no_fields(''id'' := JStr ''r1'', ''collectionId'' := JStr []))
        = Some \<lparr>ur_id = ''r1'', ur_question = None, ur_answer = None, ur_hint = None,
                ur_difficulty = None, ur_category = None, ur_language = None,
                ur_collectionId = Some (Value []), ur_isFavorite = None, ur_isPublic = None\<rparr>"
    by (simp add: updateRiddle_schema_def no_fields_def z_min_def z_string_def z_optional_def
        z_nullable_def)
  ultimately show ?thesis
    by (simp add: createRiddle_def updateRiddle_def defineAction_def createRiddle_handler_def
        updateRiddle_handler_def requireUser_def truthy_string_def collection_to_check_def
        riddle_updateData_def record_statement_def store_defs example_defs example_db_def)
qed

end
